theory Spec2Isabelle
  imports Main "HOL-Library.AList"
begin

section \<open>The object resource of the Jira Assets provider\<close>

text \<open>
  A shallow embedding of the attribute codec and of the Create, Read and Update operations of
  \<^verbatim>\<open>objectResource\<close>. Go pointers that the code dereferences are options (\<open>None\<close> is
  \<^verbatim>\<open>nil\<close>), a run-time panic is the left summand of the result, and a returned Go
  \<^verbatim>\<open>error\<close> is a value of its own. The operations start from the decoded plan or state
  (\<^verbatim>\<open>req.Plan.Get\<close>, \<^verbatim>\<open>req.State.Get\<close> and \<^verbatim>\<open>ElementsAs\<close> belong to the plugin framework) and
  from a configured resource, whose client is not nil.
\<close>

subsection \<open>Panics and errors\<close>

datatype panic = NilPointerDereference | IndexOutOfRange

text \<open>
  The two errors built with \<^verbatim>\<open>fmt.Errorf\<close>. \<open>UnknownStatus statuses\<close> stands for the message
  \<^verbatim>\<open>"unknown status, available statuses: " + strings.Join(statuses, ",")\<close> and
  \<open>UnsupportedAttributeType n\<close> for \<^verbatim>\<open>"unsupported attribute type: %d"\<close> at \<open>n\<close>.
\<close>

datatype error = UnknownStatus "string list" | UnsupportedAttributeType int

subsection \<open>Records of the asset API, with the fields the resource reads and writes\<close>

record StatusTypeMetadata =
  ID :: string
  Name :: string

record ObjectTypeScheme =
  Id :: string
  Name :: string

record ObjectTypeAttributeScheme =
  ID :: string
  Name :: string
  Type :: int
  ObjectType :: "ObjectTypeScheme option"

record ObjectTypeAssetAttributeStatusScheme =
  ID :: string

record ObjectTypeAssetAttributeValueScheme =
  Value :: string
  SearchValue :: string
  Status :: "ObjectTypeAssetAttributeStatusScheme option"

record ObjectAttributeScheme =
  ObjectTypeAttribute :: "ObjectTypeAttributeScheme option"
  ObjectAttributeValues :: "ObjectTypeAssetAttributeValueScheme option list"

record ObjectPayloadAttributeValueScheme =
  Value :: string

record ObjectPayloadAttributeScheme =
  ObjectTypeAttributeID :: string
  ObjectAttributeValues :: "ObjectPayloadAttributeValueScheme list"

record ObjectPayloadScheme =
  ObjectTypeID :: string
  Attributes :: "ObjectPayloadAttributeScheme list"
  HasAvatar :: bool
  AvatarUUID :: string

record ObjectScheme =
  WorkspaceId :: string
  GlobalId :: string
  ID :: string
  Label :: string
  ObjectKey :: string
  Created :: string
  Updated :: string
  HasAvatar :: bool
  ObjectType :: "ObjectTypeScheme option"

text \<open>The zero values \<^verbatim>\<open>&models.ObjectTypeScheme{}\<close> and \<^verbatim>\<open>&models.ObjectTypeAttributeScheme{}\<close>.\<close>

definition zero_ObjectTypeScheme :: ObjectTypeScheme where
  "zero_ObjectTypeScheme = \<lparr>ObjectTypeScheme.Id = [], ObjectTypeScheme.Name = []\<rparr>"

definition zero_ObjectTypeAttributeScheme :: ObjectTypeAttributeScheme where
  "zero_ObjectTypeAttributeScheme =
     \<lparr>ObjectTypeAttributeScheme.ID = [], ObjectTypeAttributeScheme.Name = [],
      ObjectTypeAttributeScheme.Type = 0, ObjectTypeAttributeScheme.ObjectType = None\<rparr>"

subsection \<open>Schema lookups\<close>

text \<open>
  \<^verbatim>\<open>getObjectTypeByName\<close>: the range loop reads \<^verbatim>\<open>obj.Name\<close> of every entry it visits, which
  panics on a nil entry.
\<close>

fun getObjectTypeByName :: "string \<Rightarrow> ObjectTypeScheme option list \<Rightarrow> panic + ObjectTypeScheme" where
  "getObjectTypeByName objName [] = Inr zero_ObjectTypeScheme"
| "getObjectTypeByName objName (None # schema) = Inl NilPointerDereference"
| "getObjectTypeByName objName (Some obj # schema) =
     (if ObjectTypeScheme.Name obj = objName then Inr obj
      else getObjectTypeByName objName schema)"

text \<open>
  \<^verbatim>\<open>getObjectAttributeByName\<close>: \<^verbatim>\<open>obj.Name == objName && obj.ObjectType.Name == objectType\<close>
  evaluates its right operand only when the left one holds, and that operand dereferences
  \<^verbatim>\<open>obj.ObjectType\<close>.
\<close>

fun getObjectAttributeByName ::
  "string \<Rightarrow> string \<Rightarrow> ObjectTypeAttributeScheme option list \<Rightarrow> panic + ObjectTypeAttributeScheme" where
  "getObjectAttributeByName objName objectType [] = Inr zero_ObjectTypeAttributeScheme"
| "getObjectAttributeByName objName objectType (None # schema) = Inl NilPointerDereference"
| "getObjectAttributeByName objName objectType (Some obj # schema) =
     (if ObjectTypeAttributeScheme.Name obj = objName then
        (case ObjectTypeAttributeScheme.ObjectType obj of
           None \<Rightarrow> Inl NilPointerDereference
         | Some t \<Rightarrow>
             if ObjectTypeScheme.Name t = objectType then Inr obj
             else getObjectAttributeByName objName objectType schema)
      else getObjectAttributeByName objName objectType schema)"

subsection \<open>Status lookup table\<close>

text \<open>
  The loop of \<^verbatim>\<open>getConfigStatusIDByName\<close>, with the names collected so far in \<open>statuses\<close>.
\<close>

fun getConfigStatusIDByName_loop ::
  "string \<Rightarrow> StatusTypeMetadata list \<Rightarrow> string list \<Rightarrow> error + string" where
  "getConfigStatusIDByName_loop status [] statuses = Inl (UnknownStatus statuses)"
| "getConfigStatusIDByName_loop status (statusType # rest) statuses =
     (let statuses = statuses @ [StatusTypeMetadata.Name statusType]
      in if StatusTypeMetadata.Name statusType = status then Inr (StatusTypeMetadata.ID statusType)
         else getConfigStatusIDByName_loop status rest statuses)"

text \<open>The table is passed as \<^verbatim>\<open>*[]StatusTypeMetadata\<close>; ranging over \<^verbatim>\<open>*statusType\<close> panics on nil.\<close>

definition getConfigStatusIDByName ::
  "string \<Rightarrow> StatusTypeMetadata list option \<Rightarrow> panic + (error + string)" where
  "getConfigStatusIDByName status statusType =
     (case statusType of
        None \<Rightarrow> Inl NilPointerDereference
      | Some table \<Rightarrow> Inr (getConfigStatusIDByName_loop status table []))"

fun getConfigStatusNameByID_loop :: "string \<Rightarrow> StatusTypeMetadata list \<Rightarrow> string" where
  "getConfigStatusNameByID_loop id' [] = []"
| "getConfigStatusNameByID_loop id' (statusType # rest) =
     (if StatusTypeMetadata.ID statusType = id' then StatusTypeMetadata.Name statusType
      else getConfigStatusNameByID_loop id' rest)"

definition getConfigStatusNameByID :: "string \<Rightarrow> StatusTypeMetadata list option \<Rightarrow> panic + string" where
  "getConfigStatusNameByID id' statusType =
     (case statusType of
        None \<Rightarrow> Inl NilPointerDereference
      | Some table \<Rightarrow> Inr (getConfigStatusNameByID_loop id' table))"

subsection \<open>Attribute value codec\<close>

text \<open>
  \<^verbatim>\<open>attr.ObjectAttributeValues[0]\<close> followed by a field access: the index panics on an empty
  list, the field access on a nil element.
\<close>

definition firstValue :: "ObjectAttributeScheme \<Rightarrow> panic + ObjectTypeAssetAttributeValueScheme" where
  "firstValue attr =
     (case ObjectAttributeScheme.ObjectAttributeValues attr of
        [] \<Rightarrow> Inl IndexOutOfRange
      | None # _ \<Rightarrow> Inl NilPointerDereference
      | Some v # _ \<Rightarrow> Inr v)"

text \<open>
  \<^verbatim>\<open>getAttributeValue\<close> returns a pair \<^verbatim>\<open>(string, error)\<close>; both components are kept, since
  Read stores the string and drops the error.
\<close>

definition getAttributeValue ::
  "ObjectAttributeScheme option \<Rightarrow> StatusTypeMetadata list option \<Rightarrow> panic + (string \<times> error option)" where
  "getAttributeValue attr statusType =
     (case attr of
        None \<Rightarrow> Inl NilPointerDereference
      | Some a \<Rightarrow>
         (case ObjectAttributeScheme.ObjectTypeAttribute a of
            None \<Rightarrow> Inl NilPointerDereference
          | Some d \<Rightarrow>
             if ObjectTypeAttributeScheme.Type d = 1 then
               (case firstValue a of
                  Inl p \<Rightarrow> Inl p
                | Inr v \<Rightarrow> Inr (ObjectTypeAssetAttributeValueScheme.SearchValue v, None))
             else if ObjectTypeAttributeScheme.Type d = 0 then
               (case firstValue a of
                  Inl p \<Rightarrow> Inl p
                | Inr v \<Rightarrow> Inr (ObjectTypeAssetAttributeValueScheme.Value v, None))
             else if ObjectTypeAttributeScheme.Type d = 7 then
               (case firstValue a of
                  Inl p \<Rightarrow> Inl p
                | Inr v \<Rightarrow>
                   (case ObjectTypeAssetAttributeValueScheme.Status v of
                      None \<Rightarrow> Inl NilPointerDereference
                    | Some s \<Rightarrow>
                       (case getConfigStatusNameByID (ObjectTypeAssetAttributeStatusScheme.ID s) statusType of
                          Inl p \<Rightarrow> Inl p
                        | Inr name \<Rightarrow> Inr (name, None))))
             else Inr ([], Some (UnsupportedAttributeType (ObjectTypeAttributeScheme.Type d)))))"

text \<open>
  \<^verbatim>\<open>returnAttributePayloadValue\<close> returns either \<^verbatim>\<open>(nil, err)\<close> or a fresh record with a nil
  error, which is a sum.
\<close>

definition returnAttributePayloadValue ::
  "string \<Rightarrow> string \<Rightarrow> string \<Rightarrow> ObjectTypeAttributeScheme option list \<Rightarrow>
   StatusTypeMetadata list option \<Rightarrow> panic + (error + ObjectPayloadAttributeScheme)" where
  "returnAttributePayloadValue name value objectType objectSchemaAttributes statusType =
     (case getObjectAttributeByName name objectType objectSchemaAttributes of
        Inl p \<Rightarrow> Inl p
      | Inr attrSchema \<Rightarrow>
         (case (if ObjectTypeAttributeScheme.Type attrSchema = 7
                then getConfigStatusIDByName value statusType
                else Inr (Inr value)) of
            Inl p \<Rightarrow> Inl p
          | Inr (Inl err) \<Rightarrow> Inr (Inl err)
          | Inr (Inr val) \<Rightarrow>
             Inr (Inr \<lparr>ObjectPayloadAttributeScheme.ObjectTypeAttributeID =
                         ObjectTypeAttributeScheme.ID attrSchema,
                       ObjectPayloadAttributeScheme.ObjectAttributeValues =
                         [\<lparr>ObjectPayloadAttributeValueScheme.Value = val\<rparr>]\<rparr>)))"

subsection \<open>Values of the plugin framework\<close>

text \<open>
  \<^verbatim>\<open>types.String\<close> and \<^verbatim>\<open>types.Bool\<close> are null, unknown or known; \<^verbatim>\<open>ValueString\<close> and
  \<^verbatim>\<open>ValueBool\<close> give the empty string and false unless the value is known.
\<close>

datatype tf_string = StringNull | StringUnknown | StringValue string

datatype tf_bool = BoolNull | BoolUnknown | BoolValue bool

fun ValueString :: "tf_string \<Rightarrow> string" where
  "ValueString (StringValue s) = s"
| "ValueString _ = []"

fun ValueBool :: "tf_bool \<Rightarrow> bool" where
  "ValueBool (BoolValue b) = b"
| "ValueBool _ = False"

text \<open>
  \<^verbatim>\<open>objectResourceModel\<close>. The map \<open>Attributes\<close> is the list of its entries: for a plan, in the
  order in which the range loop over its elements visits them (Go leaves that order open, so
  every order is an input); for the state that Read writes, keys are distinct by construction.
\<close>

record objectResourceModel =
  WorkspaceId :: tf_string
  GlobalId :: tf_string
  Id :: tf_string
  Label :: tf_string
  ObjectKey :: tf_string
  Created :: tf_string
  Updated :: tf_string
  HasAvatar :: tf_bool
  Type :: tf_string
  Attributes :: "(string \<times> tf_string) list"
  AvatarUuid :: tf_string

subsection \<open>The remote API as seen by the resource\<close>

text \<open>
  A failed remote call yields \<^verbatim>\<open>err\<close> and a possibly nil \<^verbatim>\<open>response\<close>; a successful one yields
  the decoded body. Arguments are the workspace ID, the object ID and the payload.
\<close>

record call_failure =
  err_Error :: string
  response_present :: bool

record client =
  Object_Create :: "string \<Rightarrow> ObjectPayloadScheme \<Rightarrow> call_failure + ObjectScheme"
  Object_Get :: "string \<Rightarrow> string \<Rightarrow> call_failure + ObjectScheme"
  Object_Attributes :: "string \<Rightarrow> string \<Rightarrow> call_failure + ObjectAttributeScheme option list"
  Object_Update :: "string \<Rightarrow> string \<Rightarrow> ObjectPayloadScheme \<Rightarrow> call_failure + ObjectScheme"

datatype remote_call =
    CreateCall string ObjectPayloadScheme
  | GetCall string string
  | AttributesCall string string
  | UpdateCall string string ObjectPayloadScheme
  | DeleteCall string string

record objectResource =
  client :: client
  workspaceId :: string
  objectschemaId :: string
  ignoreKeys :: "string list"
  objectSchemaTypes :: "ObjectTypeScheme option list"
  objectSchemaAttributes :: "ObjectTypeAttributeScheme option list"
  configStatusType :: "StatusTypeMetadata list option"

text \<open>
  What an operation leaves behind: the remote calls it issued, in order; the messages given to
  \<^verbatim>\<open>tflog\<close>; the error diagnostics (summary and detail); the state passed to
  \<^verbatim>\<open>resp.State.Set\<close>, if that is reached; and the panic that ended it, if any.
  \<open>ErrorText e\<close> is \<^verbatim>\<open>e.Error()\<close>.
\<close>

datatype message = Text string | ErrorText error

datatype log_entry = LogError message | LogInfo message

record outcome =
  calls :: "remote_call list"
  logs :: "log_entry list"
  diagnostics :: "(string \<times> message) list"
  new_state :: "objectResourceModel option"
  panicked :: "panic option"

definition crashed :: "remote_call list \<Rightarrow> log_entry list \<Rightarrow> panic \<Rightarrow> outcome" where
  "crashed cs ls p =
     \<lparr>calls = cs, logs = ls, diagnostics = [], new_state = None, panicked = Some p\<rparr>"

definition failed :: "remote_call list \<Rightarrow> log_entry list \<Rightarrow> string \<Rightarrow> message \<Rightarrow> outcome" where
  "failed cs ls summary detail =
     \<lparr>calls = cs, logs = ls, diagnostics = [(summary, detail)], new_state = None, panicked = None\<rparr>"

definition succeeded :: "remote_call list \<Rightarrow> log_entry list \<Rightarrow> objectResourceModel \<Rightarrow> outcome" where
  "succeeded cs ls st =
     \<lparr>calls = cs, logs = ls, diagnostics = [], new_state = Some st, panicked = None\<rparr>"

text \<open>The log written for a failed remote call: one entry when \<^verbatim>\<open>response != nil\<close>.\<close>

definition response_log :: "string \<Rightarrow> call_failure \<Rightarrow> log_entry list" where
  "response_log msg f = (if response_present f then [LogError (Text msg)] else [])"

subsection \<open>Create and Update\<close>

text \<open>
  The loop shared by Create and Update: it encodes the elements in the order visited,
  appends each record to \<open>attributes\<close>, and stops at the first error.
\<close>

fun payloadAttributes ::
  "(string \<times> tf_string) list \<Rightarrow> string \<Rightarrow> ObjectTypeAttributeScheme option list \<Rightarrow>
   StatusTypeMetadata list option \<Rightarrow> ObjectPayloadAttributeScheme list \<Rightarrow>
   panic + (error + ObjectPayloadAttributeScheme list)" where
  "payloadAttributes [] objectType defs statusType attributes = Inr (Inr attributes)"
| "payloadAttributes ((attr_type, attr_value) # elements) objectType defs statusType attributes =
     (case returnAttributePayloadValue attr_type (ValueString attr_value) objectType defs statusType of
        Inl p \<Rightarrow> Inl p
      | Inr (Inl e) \<Rightarrow> Inr (Inl e)
      | Inr (Inr v) \<Rightarrow> payloadAttributes elements objectType defs statusType (attributes @ [v]))"

text \<open>The computed fields copied from the object that Create and Update get back.\<close>

definition populate :: "objectResourceModel \<Rightarrow> ObjectScheme \<Rightarrow> objectResourceModel" where
  "populate plan object =
     plan\<lparr>objectResourceModel.WorkspaceId := StringValue (ObjectScheme.WorkspaceId object),
          objectResourceModel.GlobalId := StringValue (ObjectScheme.GlobalId object),
          objectResourceModel.Id := StringValue (ObjectScheme.ID object),
          objectResourceModel.Label := StringValue (ObjectScheme.Label object),
          objectResourceModel.ObjectKey := StringValue (ObjectScheme.ObjectKey object),
          objectResourceModel.Created := StringValue (ObjectScheme.Created object),
          objectResourceModel.Updated := StringValue (ObjectScheme.Updated object),
          objectResourceModel.HasAvatar := BoolValue (ObjectScheme.HasAvatar object)\<rparr>"

definition makePayload ::
  "ObjectTypeScheme \<Rightarrow> ObjectPayloadAttributeScheme list \<Rightarrow> objectResourceModel \<Rightarrow> ObjectPayloadScheme" where
  "makePayload object_type_id attributes plan =
     \<lparr>ObjectPayloadScheme.ObjectTypeID = ObjectTypeScheme.Id object_type_id,
      ObjectPayloadScheme.Attributes = attributes,
      ObjectPayloadScheme.HasAvatar = ValueBool (objectResourceModel.HasAvatar plan),
      ObjectPayloadScheme.AvatarUUID = ValueString (objectResourceModel.AvatarUuid plan)\<rparr>"

definition Create :: "objectResource \<Rightarrow> objectResourceModel \<Rightarrow> outcome" where
  "Create r plan =
     (case getObjectTypeByName (ValueString (objectResourceModel.Type plan)) (objectSchemaTypes r) of
        Inl p \<Rightarrow> crashed [] [] p
      | Inr object_type_id \<Rightarrow>
         (case payloadAttributes (objectResourceModel.Attributes plan)
                 (ObjectTypeScheme.Name object_type_id) (objectSchemaAttributes r)
                 (configStatusType r) [] of
            Inl p \<Rightarrow> crashed [] [] p
          | Inr (Inl e) \<Rightarrow>
              failed [] [LogError (ErrorText e)]
                ''Error during object attributes setting'' (ErrorText e)
          | Inr (Inr attributes) \<Rightarrow>
             (let payload = makePayload object_type_id attributes plan;
                  cs = [CreateCall (workspaceId r) payload]
              in case Object_Create (client r) (workspaceId r) payload of
                   Inl f \<Rightarrow>
                     failed cs (response_log ''Error creating object: %s'' f)
                       ''Error during object creation'' (Text (err_Error f))
                 | Inr object \<Rightarrow> succeeded cs [] (populate plan object))))"

definition Update :: "objectResource \<Rightarrow> objectResourceModel \<Rightarrow> outcome" where
  "Update r plan =
     (case getObjectTypeByName (ValueString (objectResourceModel.Type plan)) (objectSchemaTypes r) of
        Inl p \<Rightarrow> crashed [] [] p
      | Inr object_type_id \<Rightarrow>
         (case payloadAttributes (objectResourceModel.Attributes plan)
                 (ObjectTypeScheme.Name object_type_id) (objectSchemaAttributes r)
                 (configStatusType r) [] of
            Inl p \<Rightarrow> crashed [] [] p
          | Inr (Inl e) \<Rightarrow>
              failed [] [LogError (ErrorText e)]
                ''Error during object attributes setting'' (ErrorText e)
          | Inr (Inr attributes) \<Rightarrow>
             (let payload = makePayload object_type_id attributes plan;
                  ident = ValueString (objectResourceModel.Id plan);
                  cs = [UpdateCall (workspaceId r) ident payload];
                  ls = [LogInfo (Text ''Updating object.'')]
              in case Object_Update (client r) (workspaceId r) ident payload of
                   Inl f \<Rightarrow>
                     failed cs (ls @ response_log ''Error updating object: %s'' f)
                       ''Error during object update'' (Text (err_Error f))
                 | Inr object \<Rightarrow> succeeded cs ls (populate plan object))))"

subsection \<open>Read\<close>

text \<open>
  The loop of Read over the attributes returned by the remote API. The Go map \<open>attributes\<close> is
  an association list; an assignment to a key replaces its entry or adds one. The name is
  read from every entry, the value only of those that are not ignored, and the error of
  \<^verbatim>\<open>getAttributeValue\<close> is assigned to the blank identifier.
\<close>

fun Read_attributes ::
  "ObjectAttributeScheme option list \<Rightarrow> string list \<Rightarrow> StatusTypeMetadata list option \<Rightarrow>
   (string \<times> string) list \<Rightarrow> panic + (string \<times> string) list" where
  "Read_attributes [] r_ignoreKeys statusType attributes = Inr attributes"
| "Read_attributes (None # attrs) r_ignoreKeys statusType attributes = Inl NilPointerDereference"
| "Read_attributes (Some attr # attrs) r_ignoreKeys statusType attributes =
     (let ignore_keys = [''Created'', ''Key'', ''Updated''] @ r_ignoreKeys
      in case ObjectAttributeScheme.ObjectTypeAttribute attr of
           None \<Rightarrow> Inl NilPointerDereference
         | Some d \<Rightarrow>
             if ObjectTypeAttributeScheme.Name d \<notin> set ignore_keys then
               (case getAttributeValue (Some attr) statusType of
                  Inl p \<Rightarrow> Inl p
                | Inr (v, _) \<Rightarrow>
                    Read_attributes attrs r_ignoreKeys statusType
                      (AList.update (ObjectTypeAttributeScheme.Name d) v attributes))
             else Read_attributes attrs r_ignoreKeys statusType attributes)"

definition Read :: "objectResource \<Rightarrow> objectResourceModel \<Rightarrow> outcome" where
  "Read r state =
     (let ident = ValueString (objectResourceModel.Id state);
          c1 = [GetCall (workspaceId r) ident];
          c2 = c1 @ [AttributesCall (workspaceId r) ident]
      in case Object_Get (client r) (workspaceId r) ident of
           Inl f \<Rightarrow>
             failed c1 (response_log ''Error reading object: %s'' f)
               ''Error during object reading'' (Text (err_Error f))
         | Inr object \<Rightarrow>
            (case Object_Attributes (client r) (workspaceId r) ident of
               Inl f \<Rightarrow>
                 failed c2 (response_log ''Error reading object attributes: %s'' f)
                   ''Error during object attributes reading'' (Text (err_Error f))
             | Inr attrs \<Rightarrow>
                (case Read_attributes attrs (ignoreKeys r) (configStatusType r) [] of
                   Inl p \<Rightarrow> crashed c2 [] p
                 | Inr attributes \<Rightarrow>
                    (case ObjectScheme.ObjectType object of
                       None \<Rightarrow> crashed c2 [] NilPointerDereference
                     | Some t \<Rightarrow>
                        succeeded c2 []
                          (state\<lparr>objectResourceModel.Attributes :=
                                    map (\<lambda>(k, v). (k, StringValue v)) attributes,
                                 objectResourceModel.WorkspaceId :=
                                    StringValue (ObjectScheme.WorkspaceId object),
                                 objectResourceModel.GlobalId :=
                                    StringValue (ObjectScheme.GlobalId object),
                                 objectResourceModel.Id := StringValue (ObjectScheme.ID object),
                                 objectResourceModel.Label := StringValue (ObjectScheme.Label object),
                                 objectResourceModel.ObjectKey :=
                                    StringValue (ObjectScheme.ObjectKey object),
                                 objectResourceModel.HasAvatar :=
                                    BoolValue (ObjectScheme.HasAvatar object),
                                 objectResourceModel.Type :=
                                    StringValue (ObjectTypeScheme.Name t)\<rparr>)))))"

subsection \<open>Notions used to state the properties\<close>

text \<open>
  The condition of the loop of \<^verbatim>\<open>getObjectAttributeByName\<close>, where it evaluates without a
  panic: the entry has the name and its object type has the given one.
\<close>

definition attributeMatches :: "string \<Rightarrow> string \<Rightarrow> ObjectTypeAttributeScheme \<Rightarrow> bool" where
  "attributeMatches objName objectType obj =
     (ObjectTypeAttributeScheme.Name obj = objName \<and>
      (case ObjectTypeAttributeScheme.ObjectType obj of
         None \<Rightarrow> False
       | Some t \<Rightarrow> ObjectTypeScheme.Name t = objectType))"

text \<open>
  The remote system is not part of the repository. For the round trips of the codec, the record
  read back for a written payload record of definition \<open>d\<close> carries each payload value in the
  representation that the type code of \<open>d\<close> selects on decoding: the status ID for code 7, the
  search value for code 1, the raw value otherwise.
\<close>

definition storedValue :: "int \<Rightarrow> string \<Rightarrow> ObjectTypeAssetAttributeValueScheme" where
  "storedValue t v =
     (if t = 7 then
        \<lparr>ObjectTypeAssetAttributeValueScheme.Value = [],
         ObjectTypeAssetAttributeValueScheme.SearchValue = [],
         ObjectTypeAssetAttributeValueScheme.Status =
           Some \<lparr>ObjectTypeAssetAttributeStatusScheme.ID = v\<rparr>\<rparr>
      else if t = 1 then
        \<lparr>ObjectTypeAssetAttributeValueScheme.Value = [],
         ObjectTypeAssetAttributeValueScheme.SearchValue = v,
         ObjectTypeAssetAttributeValueScheme.Status = None\<rparr>
      else
        \<lparr>ObjectTypeAssetAttributeValueScheme.Value = v,
         ObjectTypeAssetAttributeValueScheme.SearchValue = [],
         ObjectTypeAssetAttributeValueScheme.Status = None\<rparr>)"

definition storedAttribute ::
  "ObjectTypeAttributeScheme \<Rightarrow> ObjectPayloadAttributeScheme \<Rightarrow> ObjectAttributeScheme" where
  "storedAttribute d p =
     \<lparr>ObjectAttributeScheme.ObjectTypeAttribute = Some d,
      ObjectAttributeScheme.ObjectAttributeValues =
        map (\<lambda>pv. Some (storedValue (ObjectTypeAttributeScheme.Type d)
                           (ObjectPayloadAttributeValueScheme.Value pv)))
            (ObjectPayloadAttributeScheme.ObjectAttributeValues p)\<rparr>"

text \<open>The names that Read never copies: the three fixed ones and the configured ignore keys.\<close>

definition ignoredNames :: "objectResource \<Rightarrow> string set" where
  "ignoredNames r = set (ignoreKeys r) \<union> {''Created'', ''Key'', ''Updated''}"

text \<open>The name carried by an entry of the attribute list, if the entry has one.\<close>

definition attributeName :: "ObjectAttributeScheme option \<Rightarrow> string option" where
  "attributeName x =
     (case x of
        None \<Rightarrow> None
      | Some a \<Rightarrow> map_option ObjectTypeAttributeScheme.Name (ObjectAttributeScheme.ObjectTypeAttribute a))"

subsection \<open>A sample configuration\<close>

text \<open>
  Object type Host with a status attribute, a text attribute and a reference attribute, and the
  status table Enabled/Disabled.
\<close>

definition sampleHost :: ObjectTypeScheme where
  "sampleHost = \<lparr>ObjectTypeScheme.Id = ''3'', ObjectTypeScheme.Name = ''Host''\<rparr>"

definition sampleStatusDef :: ObjectTypeAttributeScheme where
  "sampleStatusDef =
     \<lparr>ObjectTypeAttributeScheme.ID = ''12'', ObjectTypeAttributeScheme.Name = ''Status'',
      ObjectTypeAttributeScheme.Type = 7, ObjectTypeAttributeScheme.ObjectType = Some sampleHost\<rparr>"

definition sampleTextDef :: ObjectTypeAttributeScheme where
  "sampleTextDef =
     \<lparr>ObjectTypeAttributeScheme.ID = ''13'', ObjectTypeAttributeScheme.Name = ''external_ips'',
      ObjectTypeAttributeScheme.Type = 0, ObjectTypeAttributeScheme.ObjectType = Some sampleHost\<rparr>"

definition sampleUserDef :: ObjectTypeAttributeScheme where
  "sampleUserDef =
     \<lparr>ObjectTypeAttributeScheme.ID = ''14'', ObjectTypeAttributeScheme.Name = ''Owner'',
      ObjectTypeAttributeScheme.Type = 2, ObjectTypeAttributeScheme.ObjectType = Some sampleHost\<rparr>"

definition sampleStatuses :: "StatusTypeMetadata list" where
  "sampleStatuses =
     [\<lparr>StatusTypeMetadata.ID = ''1'', StatusTypeMetadata.Name = ''Enabled''\<rparr>,
      \<lparr>StatusTypeMetadata.ID = ''2'', StatusTypeMetadata.Name = ''Disabled''\<rparr>]"

definition sampleObject :: ObjectScheme where
  "sampleObject =
     \<lparr>ObjectScheme.WorkspaceId = ''w1'', ObjectScheme.GlobalId = ''w1:88'', ObjectScheme.ID = ''88'',
      ObjectScheme.Label = ''web01'', ObjectScheme.ObjectKey = ''IT-88'',
      ObjectScheme.Created = ''2024-01-01'', ObjectScheme.Updated = ''2024-06-30'',
      ObjectScheme.HasAvatar = False, ObjectScheme.ObjectType = Some sampleHost\<rparr>"

definition sampleStatusAttribute :: ObjectAttributeScheme where
  "sampleStatusAttribute =
     \<lparr>ObjectAttributeScheme.ObjectTypeAttribute = Some sampleStatusDef,
      ObjectAttributeScheme.ObjectAttributeValues = [Some (storedValue 7 ''1'')]\<rparr>"

definition sampleUserAttribute :: ObjectAttributeScheme where
  "sampleUserAttribute =
     \<lparr>ObjectAttributeScheme.ObjectTypeAttribute = Some sampleUserDef,
      ObjectAttributeScheme.ObjectAttributeValues = [Some (storedValue 2 ''alice'')]\<rparr>"

definition sampleKeyAttribute :: ObjectAttributeScheme where
  "sampleKeyAttribute =
     \<lparr>ObjectAttributeScheme.ObjectTypeAttribute =
        Some (sampleTextDef\<lparr>ObjectTypeAttributeScheme.Name := ''Key''\<rparr>),
      ObjectAttributeScheme.ObjectAttributeValues = [Some (storedValue 0 ''IT-88'')]\<rparr>"

definition sampleRemoteAttributes :: "ObjectAttributeScheme option list" where
  "sampleRemoteAttributes =
     [Some sampleStatusAttribute, Some sampleUserAttribute, Some sampleKeyAttribute]"

definition sampleClient :: client where
  "sampleClient =
     \<lparr>Object_Create = (\<lambda>ws payload. Inr sampleObject),
      Object_Get = (\<lambda>ws ident. Inr sampleObject),
      Object_Attributes = (\<lambda>ws ident. Inr sampleRemoteAttributes),
      Object_Update = (\<lambda>ws ident payload. Inr sampleObject)\<rparr>"

definition sampleResource :: objectResource where
  "sampleResource =
     \<lparr>client = sampleClient, workspaceId = ''w1'', objectschemaId = ''1'', ignoreKeys = [],
      objectSchemaTypes = [Some sampleHost],
      objectSchemaAttributes = [Some sampleStatusDef, Some sampleTextDef, Some sampleUserDef],
      configStatusType = Some sampleStatuses\<rparr>"

definition samplePlan :: "(string \<times> tf_string) list \<Rightarrow> objectResourceModel" where
  "samplePlan elements =
     \<lparr>objectResourceModel.WorkspaceId = StringUnknown, objectResourceModel.GlobalId = StringUnknown,
      objectResourceModel.Id = StringValue ''88'', objectResourceModel.Label = StringUnknown,
      objectResourceModel.ObjectKey = StringUnknown,
      objectResourceModel.Created = StringValue ''2023-12-31'',
      objectResourceModel.Updated = StringValue ''2023-12-31'',
      objectResourceModel.HasAvatar = BoolValue False, objectResourceModel.Type = StringValue ''Host'',
      objectResourceModel.Attributes = elements, objectResourceModel.AvatarUuid = StringNull\<rparr>"

section \<open>Properties\<close>

lemmas sample_defs =
  sampleHost_def sampleStatusDef_def sampleTextDef_def sampleUserDef_def sampleStatuses_def
  sampleObject_def sampleStatusAttribute_def sampleUserAttribute_def sampleKeyAttribute_def
  sampleRemoteAttributes_def sampleClient_def sampleResource_def samplePlan_def

lemmas codec_defs =
  getConfigStatusIDByName_def getConfigStatusNameByID_def firstValue_def getAttributeValue_def
  returnAttributePayloadValue_def storedValue_def storedAttribute_def

lemmas outcome_defs =
  crashed_def failed_def succeeded_def response_log_def populate_def makePayload_def

subsection \<open>Schema lookups\<close>

lemma getObjectTypeByName_returns:
  "getObjectTypeByName objName schema = Inr t \<Longrightarrow>
     (\<exists>pre post. schema = pre @ Some t # post \<and> ObjectTypeScheme.Name t = objName \<and>
        (\<forall>y. Some y \<in> set pre \<longrightarrow> ObjectTypeScheme.Name y \<noteq> objName))
     \<or> ((\<forall>y. Some y \<in> set schema \<longrightarrow> ObjectTypeScheme.Name y \<noteq> objName) \<and> t = zero_ObjectTypeScheme)"
proof (induction objName schema rule: getObjectTypeByName.induct)
  case (1 objName)
  then show ?case by simp
next
  case (2 objName schema)
  then show ?case by simp
next
  case (3 objName obj schema)
  show ?case
  proof (cases "ObjectTypeScheme.Name obj = objName")
    case True
    with 3 have "t = obj" by simp
    with True have "Some obj # schema = [] @ Some t # schema \<and> ObjectTypeScheme.Name t = objName \<and>
        (\<forall>y. Some y \<in> set [] \<longrightarrow> ObjectTypeScheme.Name y \<noteq> objName)" by simp
    then show ?thesis by blast
  next
    case False
    with 3 have r: "getObjectTypeByName objName schema = Inr t" by simp
    from 3(1)[OF False r] show ?thesis
    proof
      assume "\<exists>pre post. schema = pre @ Some t # post \<and> ObjectTypeScheme.Name t = objName \<and>
        (\<forall>y. Some y \<in> set pre \<longrightarrow> ObjectTypeScheme.Name y \<noteq> objName)"
      then obtain pre post where p: "schema = pre @ Some t # post" "ObjectTypeScheme.Name t = objName"
        "\<forall>y. Some y \<in> set pre \<longrightarrow> ObjectTypeScheme.Name y \<noteq> objName" by blast
      with False have "Some obj # schema = (Some obj # pre) @ Some t # post \<and> ObjectTypeScheme.Name t = objName \<and>
        (\<forall>y. Some y \<in> set (Some obj # pre) \<longrightarrow> ObjectTypeScheme.Name y \<noteq> objName)" by auto
      then show ?thesis by blast
    next
      assume "(\<forall>y. Some y \<in> set schema \<longrightarrow> ObjectTypeScheme.Name y \<noteq> objName) \<and> t = zero_ObjectTypeScheme"
      with False show ?thesis by auto
    qed
  qed
qed

lemma getObjectTypeByName_total:
  "None \<notin> set schema \<Longrightarrow> \<exists>t. getObjectTypeByName objName schema = Inr t"
  by (induction objName schema rule: getObjectTypeByName.induct) auto

lemma getObjectAttributeByName_returns:
  "getObjectAttributeByName objName objectType schema = Inr d \<Longrightarrow>
     (\<exists>pre post. schema = pre @ Some d # post \<and> attributeMatches objName objectType d \<and>
        (\<forall>y. Some y \<in> set pre \<longrightarrow> \<not> attributeMatches objName objectType y))
     \<or> ((\<forall>y. Some y \<in> set schema \<longrightarrow> \<not> attributeMatches objName objectType y) \<and> d = zero_ObjectTypeAttributeScheme)"
proof (induction objName objectType schema rule: getObjectAttributeByName.induct)
  case (1 objName objectType)
  then show ?case by simp
next
  case (2 objName objectType schema)
  then show ?case by simp
next
  case (3 objName objectType obj schema)
  show ?case
  proof (cases "attributeMatches objName objectType obj")
    case True
    with 3(3) have "d = obj" by (auto simp: attributeMatches_def split: option.splits)
    with True have "Some obj # schema = [] @ Some d # schema \<and> attributeMatches objName objectType d \<and>
        (\<forall>y. Some y \<in> set [] \<longrightarrow> \<not> attributeMatches objName objectType y)" by simp
    then show ?thesis by blast
  next
    case False
    with 3(3) have r: "getObjectAttributeByName objName objectType schema = Inr d"
      by (auto simp: attributeMatches_def split: if_splits option.splits)
    have "(\<exists>pre post. schema = pre @ Some d # post \<and> attributeMatches objName objectType d \<and>
        (\<forall>y. Some y \<in> set pre \<longrightarrow> \<not> attributeMatches objName objectType y))
     \<or> ((\<forall>y. Some y \<in> set schema \<longrightarrow> \<not> attributeMatches objName objectType y) \<and> d = zero_ObjectTypeAttributeScheme)"
    proof (cases "ObjectTypeAttributeScheme.Name obj = objName")
      case n: True
      with False 3(3) obtain t where t: "ObjectTypeAttributeScheme.ObjectType obj = Some t"
        "ObjectTypeScheme.Name t \<noteq> objectType"
        by (auto simp: attributeMatches_def split: option.splits)
      from 3(1)[OF n t(1) t(2) r] show ?thesis .
    next
      case n: False
      from 3(2)[OF n r] show ?thesis .
    qed
    then show ?thesis
    proof
      assume "\<exists>pre post. schema = pre @ Some d # post \<and> attributeMatches objName objectType d \<and>
        (\<forall>y. Some y \<in> set pre \<longrightarrow> \<not> attributeMatches objName objectType y)"
      then obtain pre post where p: "schema = pre @ Some d # post" "attributeMatches objName objectType d"
        "\<forall>y. Some y \<in> set pre \<longrightarrow> \<not> attributeMatches objName objectType y" by blast
      with False have "Some obj # schema = (Some obj # pre) @ Some d # post \<and> attributeMatches objName objectType d \<and>
        (\<forall>y. Some y \<in> set (Some obj # pre) \<longrightarrow> \<not> attributeMatches objName objectType y)" by auto
      then show ?thesis by blast
    next
      assume "(\<forall>y. Some y \<in> set schema \<longrightarrow> \<not> attributeMatches objName objectType y) \<and> d = zero_ObjectTypeAttributeScheme"
      with False show ?thesis by auto
    qed
  qed
qed

lemma getObjectAttributeByName_total:
  "None \<notin> set schema \<Longrightarrow>
   \<forall>y. Some y \<in> set schema \<and> ObjectTypeAttributeScheme.Name y = objName \<longrightarrow>
        ObjectTypeAttributeScheme.ObjectType y \<noteq> None \<Longrightarrow>
   \<exists>d. getObjectAttributeByName objName objectType schema = Inr d"
  by (induction objName objectType schema rule: getObjectAttributeByName.induct)
     (auto split: option.splits)

subsection \<open>Status lookup table\<close>

lemma IDByName_loop_found:
  "e \<in> set table \<Longrightarrow> StatusTypeMetadata.Name e = status \<Longrightarrow>
   \<exists>e'\<in>set table. StatusTypeMetadata.Name e' = status \<and>
      getConfigStatusIDByName_loop status table acc = Inr (StatusTypeMetadata.ID e')"
  by (induction status table acc rule: getConfigStatusIDByName_loop.induct) auto

lemma IDByName_loop_Inr:
  "getConfigStatusIDByName_loop status table acc = Inr i \<Longrightarrow>
   \<exists>e\<in>set table. StatusTypeMetadata.Name e = status \<and> StatusTypeMetadata.ID e = i"
  by (induction status table acc rule: getConfigStatusIDByName_loop.induct) (auto split: if_splits)

lemma IDByName_loop_Inl:
  "getConfigStatusIDByName_loop status table acc = Inl e \<Longrightarrow>
   e = UnknownStatus (acc @ map StatusTypeMetadata.Name table) \<and>
   status \<notin> StatusTypeMetadata.Name ` set table"
  by (induction status table acc rule: getConfigStatusIDByName_loop.induct) (auto split: if_splits)

lemma NameByID_loop_found:
  "e \<in> set table \<Longrightarrow>
   \<exists>e'\<in>set table. StatusTypeMetadata.ID e' = StatusTypeMetadata.ID e \<and>
      getConfigStatusNameByID_loop (StatusTypeMetadata.ID e) table = StatusTypeMetadata.Name e'"
  by (induction table) auto

lemma status_table_round_trip:
  assumes "e \<in> set table"
    and "\<forall>a\<in>set table. \<forall>b\<in>set table.
           StatusTypeMetadata.ID a = StatusTypeMetadata.ID b \<longrightarrow> StatusTypeMetadata.Name a = StatusTypeMetadata.Name b"
  shows "\<exists>i. getConfigStatusIDByName_loop (StatusTypeMetadata.Name e) table [] = Inr i \<and>
             getConfigStatusNameByID_loop i table = StatusTypeMetadata.Name e"
proof -
  from IDByName_loop_found[OF assms(1) refl, of "[]"] obtain e1 where
    e1: "e1 \<in> set table" "StatusTypeMetadata.Name e1 = StatusTypeMetadata.Name e"
      "getConfigStatusIDByName_loop (StatusTypeMetadata.Name e) table [] = Inr (StatusTypeMetadata.ID e1)"
    by blast
  from NameByID_loop_found[OF e1(1)] obtain e2 where
    e2: "e2 \<in> set table" "StatusTypeMetadata.ID e2 = StatusTypeMetadata.ID e1"
      "getConfigStatusNameByID_loop (StatusTypeMetadata.ID e1) table = StatusTypeMetadata.Name e2"
    by blast
  from assms(2) e1(1) e2(1) e2(2) have "StatusTypeMetadata.Name e2 = StatusTypeMetadata.Name e1" by blast
  with e1 e2 show ?thesis by simp
qed

subsection \<open>Loops of the operations\<close>

lemma payloadAttributes_Inr:
  "payloadAttributes els ot defs st acc = Inr (Inr attrs) \<Longrightarrow>
   \<exists>new. attrs = acc @ new \<and>
     list_all2 (\<lambda>el rec. returnAttributePayloadValue (fst el) (ValueString (snd el)) ot defs st = Inr (Inr rec))
       els new"
proof (induction els ot defs st acc rule: payloadAttributes.induct)
  case (1 objectType defs statusType attributes)
  then show ?case by simp
next
  case (2 attr_type attr_value elements objectType defs statusType attributes)
  from 2(2) obtain v where
    v: "returnAttributePayloadValue attr_type (ValueString attr_value) objectType defs statusType = Inr (Inr v)"
    and r: "payloadAttributes elements objectType defs statusType (attributes @ [v]) = Inr (Inr attrs)"
    by (auto split: sum.splits)
  from 2(1)[OF v refl r] obtain new where
    "attrs = (attributes @ [v]) @ new"
    "list_all2 (\<lambda>el rec. returnAttributePayloadValue (fst el) (ValueString (snd el)) objectType defs statusType = Inr (Inr rec))
       elements new" by blast
  with v have "attrs = attributes @ (v # new) \<and>
    list_all2 (\<lambda>el rec. returnAttributePayloadValue (fst el) (ValueString (snd el)) objectType defs statusType = Inr (Inr rec))
       ((attr_type, attr_value) # elements) (v # new)" by simp
  then show ?case by blast
qed

lemma Update_calls:
  "calls (Update r plan) = [] \<and> new_state (Update r plan) = None \<or>
   (\<exists>t attrs. getObjectTypeByName (ValueString (objectResourceModel.Type plan)) (objectSchemaTypes r) = Inr t \<and>
      payloadAttributes (objectResourceModel.Attributes plan) (ObjectTypeScheme.Name t)
         (objectSchemaAttributes r) (configStatusType r) [] = Inr (Inr attrs) \<and>
      calls (Update r plan) =
        [UpdateCall (workspaceId r) (ValueString (objectResourceModel.Id plan)) (makePayload t attrs plan)])"
  by (auto simp: Update_def crashed_def failed_def succeeded_def Let_def split: sum.splits)

lemma Create_calls:
  "getObjectTypeByName (ValueString (objectResourceModel.Type plan)) (objectSchemaTypes r) = Inr t \<Longrightarrow>
   payloadAttributes (objectResourceModel.Attributes plan) (ObjectTypeScheme.Name t)
         (objectSchemaAttributes r) (configStatusType r) [] = Inr (Inr attrs) \<Longrightarrow>
   calls (Create r plan) = [CreateCall (workspaceId r) (makePayload t attrs plan)] \<and>
   panicked (Create r plan) = None \<and>
   (\<forall>s m. (s, m) \<in> set (diagnostics (Create r plan)) \<longrightarrow> s = ''Error during object creation'')"
  by (auto simp: Create_def crashed_def failed_def succeeded_def Let_def split: sum.splits)

lemma getAttributeValue_error:
  "getAttributeValue x st = Inr (v, Some e) \<Longrightarrow> v = [] \<and> (\<exists>n. e = UnsupportedAttributeType n)"
  by (auto simp: getAttributeValue_def split: option.splits if_splits sum.splits)

lemma Read_attributes_step:
  "ObjectAttributeScheme.ObjectTypeAttribute attr = Some d \<Longrightarrow>
   Read_attributes (Some attr # attrs) ik st acc =
     (if ObjectTypeAttributeScheme.Name d \<in> set ik \<union> {''Created'', ''Key'', ''Updated''}
      then Read_attributes attrs ik st acc
      else (case getAttributeValue (Some attr) st of
              Inl p \<Rightarrow> Inl p
            | Inr ve \<Rightarrow> Read_attributes attrs ik st
                          (AList.update (ObjectTypeAttributeScheme.Name d) (fst ve) acc)))"
  by (auto split: sum.splits prod.splits)

lemma Read_attributes_names:
  "Read_attributes attrs ik st acc = Inr m \<Longrightarrow>
   fst ` set m = fst ` set acc \<union> ({n. Some n \<in> attributeName ` set attrs} - (set ik \<union> {''Created'', ''Key'', ''Updated''}))
   \<and> None \<notin> attributeName ` set attrs
   \<and> (distinct (map fst acc) \<longrightarrow> distinct (map fst m))"
proof (induction attrs arbitrary: acc)
  case Nil
  then show ?case by simp
next
  case (Cons x attrs)
  from Cons.prems obtain attr where x: "x = Some attr" by (cases x) auto
  from Cons.prems x obtain d where d: "ObjectAttributeScheme.ObjectTypeAttribute attr = Some d"
    by (auto split: option.splits)
  let ?n = "ObjectTypeAttributeScheme.Name d"
  have an: "attributeName x = Some ?n" using d x by (simp add: attributeName_def)
  note step = Read_attributes_step[OF d, of attrs ik st acc]
  show ?case
  proof (cases "?n \<in> set ik \<union> {''Created'', ''Key'', ''Updated''}")
    case True
    with Cons.prems x step have r: "Read_attributes attrs ik st acc = Inr m" by simp
    from Cons.IH[OF r] True an show ?thesis by auto
  next
    case False
    with Cons.prems x step obtain ve where
      v: "getAttributeValue (Some attr) st = Inr ve"
      and r: "Read_attributes attrs ik st (AList.update ?n (fst ve) acc) = Inr m"
      by (auto split: sum.splits)
    from Cons.IH[OF r] False an show ?thesis
      by (auto simp: dom_update distinct_update)
  qed
qed

lemma Read_attributes_keeps:
  "Read_attributes attrs ik st acc = Inr m \<Longrightarrow> Some n \<notin> attributeName ` set attrs \<Longrightarrow>
   map_of m n = map_of acc n"
proof (induction attrs arbitrary: acc)
  case Nil
  then show ?case by simp
next
  case (Cons x attrs)
  from Cons.prems obtain attr where x: "x = Some attr" by (cases x) auto
  from Cons.prems x obtain d where d: "ObjectAttributeScheme.ObjectTypeAttribute attr = Some d"
    by (auto split: option.splits)
  let ?k = "ObjectTypeAttributeScheme.Name d"
  have an: "attributeName x = Some ?k" using d x by (simp add: attributeName_def)
  with Cons.prems(2) have ne: "?k \<noteq> n" and rest: "Some n \<notin> attributeName ` set attrs" by auto
  note step = Read_attributes_step[OF d, of attrs ik st acc]
  show ?case
  proof (cases "?k \<in> set ik \<union> {''Created'', ''Key'', ''Updated''}")
    case True
    with Cons.prems x step have r: "Read_attributes attrs ik st acc = Inr m" by simp
    from Cons.IH[OF r rest] show ?thesis .
  next
    case False
    with Cons.prems x step obtain ve where
      r: "Read_attributes attrs ik st (AList.update ?k (fst ve) acc) = Inr m"
      by (auto split: sum.splits)
    from Cons.IH[OF r rest] ne show ?thesis by (simp add: update_conv')
  qed
qed

lemma Read_attributes_last:
  "Read_attributes (pre @ Some attr # post) ik st acc = Inr m \<Longrightarrow>
   ObjectAttributeScheme.ObjectTypeAttribute attr = Some d \<Longrightarrow>
   ObjectTypeAttributeScheme.Name d \<notin> set ik \<union> {''Created'', ''Key'', ''Updated''} \<Longrightarrow>
   Some (ObjectTypeAttributeScheme.Name d) \<notin> attributeName ` set post \<Longrightarrow>
   \<exists>ve. getAttributeValue (Some attr) st = Inr ve \<and>
        map_of m (ObjectTypeAttributeScheme.Name d) = Some (fst ve)"
proof (induction pre arbitrary: acc)
  case Nil
  note step = Read_attributes_step[OF Nil(2), of post ik st acc]
  with Nil(1,3) obtain ve where
      v: "getAttributeValue (Some attr) st = Inr ve"
      and r: "Read_attributes post ik st (AList.update (ObjectTypeAttributeScheme.Name d) (fst ve) acc) = Inr m"
      by (auto split: sum.splits)
  from Read_attributes_keeps[OF r Nil(4)] v show ?case by (simp add: update_conv')
next
  case (Cons x pre)
  from Cons.prems(1) obtain a where x: "x = Some a" by (cases x) auto
  from Cons.prems(1) x obtain d' where d': "ObjectAttributeScheme.ObjectTypeAttribute a = Some d'"
    by (auto split: option.splits)
  note step = Read_attributes_step[OF d', of "pre @ Some attr # post" ik st acc]
  from Cons.prems(1) x step obtain acc' where
    "Read_attributes (pre @ Some attr # post) ik st acc' = Inr m"
    by (auto split: sum.splits if_splits)
  from Cons.IH[OF this Cons.prems(2,3,4)] show ?case .
qed

lemma Read_success:
  "new_state (Read r state) = Some st' \<Longrightarrow>
   \<exists>object attrs attributes t.
     Object_Get (client r) (workspaceId r) (ValueString (objectResourceModel.Id state)) = Inr object \<and>
     Object_Attributes (client r) (workspaceId r) (ValueString (objectResourceModel.Id state)) = Inr attrs \<and>
     Read_attributes attrs (ignoreKeys r) (configStatusType r) [] = Inr attributes \<and>
     ObjectScheme.ObjectType object = Some t \<and>
     objectResourceModel.Attributes st' = map (\<lambda>(k, v). (k, StringValue v)) attributes \<and>
     logs (Read r state) = [] \<and> diagnostics (Read r state) = [] \<and> panicked (Read r state) = None"
  by (auto simp: Read_def crashed_def failed_def succeeded_def Let_def split: sum.splits option.splits)

subsection \<open>Create with an attribute name that has no definition\<close>

lemma map_fst_StringValue:
  "map fst (map (\<lambda>(k, v). (k, StringValue v)) xs) = map fst xs"
  by (induction xs) auto

lemma unresolved_payload:
  assumes "returnAttributePayloadValue name v ot defs st = Inr (Inr rec)"
    and "\<forall>y. Some y \<in> set defs \<longrightarrow> \<not> attributeMatches name ot y"
  shows "rec = \<lparr>ObjectPayloadAttributeScheme.ObjectTypeAttributeID = [],
                ObjectPayloadAttributeScheme.ObjectAttributeValues =
                  [\<lparr>ObjectPayloadAttributeValueScheme.Value = v\<rparr>]\<rparr>"
proof -
  from assms(1) obtain d where d: "getObjectAttributeByName name ot defs = Inr d"
    by (auto simp: returnAttributePayloadValue_def split: sum.splits)
  from getObjectAttributeByName_returns[OF d] assms(2) have z: "d = zero_ObjectTypeAttributeScheme"
    by auto
  with assms(1) d show ?thesis
    by (simp add: returnAttributePayloadValue_def zero_ObjectTypeAttributeScheme_def)
qed

lemma workspaceId_sample: "workspaceId sampleResource = ''w1''"
  by (simp add: sampleResource_def)

text \<open>
  Claim C1, as stated: a Create whose planned attribute map has a name with no attribute
  definition fails with a schema-resolution error before any remote call. It does not hold:
  on the sample configuration the name \<open>bogus\<close> resolves to the zero-value definition, no
  diagnostic is produced, and the create call is issued with a record whose
  \<open>ObjectTypeAttributeID\<close> is empty.
\<close>

theorem Create_unresolved_name_reaches_remote:
  "getObjectAttributeByName ''bogus'' ''Host'' (objectSchemaAttributes sampleResource)
     = Inr zero_ObjectTypeAttributeScheme \<and>
   calls (Create sampleResource (samplePlan [(''bogus'', StringValue ''x'')])) =
     [CreateCall ''w1''
        \<lparr>ObjectPayloadScheme.ObjectTypeID = ''3'',
         ObjectPayloadScheme.Attributes =
           [\<lparr>ObjectPayloadAttributeScheme.ObjectTypeAttributeID = [],
             ObjectPayloadAttributeScheme.ObjectAttributeValues =
               [\<lparr>ObjectPayloadAttributeValueScheme.Value = ''x''\<rparr>]\<rparr>],
         ObjectPayloadScheme.HasAvatar = False, ObjectPayloadScheme.AvatarUUID = []\<rparr>] \<and>
   diagnostics (Create sampleResource (samplePlan [(''bogus'', StringValue ''x'')])) = []"
  by (simp add: Create_def sample_defs codec_defs outcome_defs Let_def
        zero_ObjectTypeAttributeScheme_def)

text \<open>
  Claim C1, amended: when the object type lookup returns and every planned attribute encodes
  without error, a planned name \<open>name\<close> that matches no attribute definition of the object type
  is encoded without error as a record with an empty \<open>ObjectTypeAttributeID\<close> and the raw value;
  that record is part of the payload of the single remote create call, Create does not panic,
  and the only diagnostic it can add is the one of a failed remote call.
\<close>

theorem Create_unresolved_name_passes_through:
  assumes "getObjectTypeByName (ValueString (objectResourceModel.Type plan)) (objectSchemaTypes r) = Inr t"
    and "payloadAttributes (objectResourceModel.Attributes plan) (ObjectTypeScheme.Name t)
           (objectSchemaAttributes r) (configStatusType r) [] = Inr (Inr attrs)"
    and "(name, v) \<in> set (objectResourceModel.Attributes plan)"
    and "\<forall>y. Some y \<in> set (objectSchemaAttributes r) \<longrightarrow>
           \<not> attributeMatches name (ObjectTypeScheme.Name t) y"
  shows "returnAttributePayloadValue name (ValueString v) (ObjectTypeScheme.Name t)
           (objectSchemaAttributes r) (configStatusType r)
         = Inr (Inr \<lparr>ObjectPayloadAttributeScheme.ObjectTypeAttributeID = [],
                     ObjectPayloadAttributeScheme.ObjectAttributeValues =
                       [\<lparr>ObjectPayloadAttributeValueScheme.Value = ValueString v\<rparr>]\<rparr>)
       \<and> \<lparr>ObjectPayloadAttributeScheme.ObjectTypeAttributeID = [],
          ObjectPayloadAttributeScheme.ObjectAttributeValues =
            [\<lparr>ObjectPayloadAttributeValueScheme.Value = ValueString v\<rparr>]\<rparr> \<in> set attrs
       \<and> calls (Create r plan) = [CreateCall (workspaceId r) (makePayload t attrs plan)]
       \<and> panicked (Create r plan) = None
       \<and> (\<forall>s m. (s, m) \<in> set (diagnostics (Create r plan)) \<longrightarrow>
             s = ''Error during object creation'')"
proof -
  let ?enc = "\<lambda>el rec. returnAttributePayloadValue (fst el) (ValueString (snd el))
                 (ObjectTypeScheme.Name t) (objectSchemaAttributes r) (configStatusType r) = Inr (Inr rec)"
  let ?rec = "\<lparr>ObjectPayloadAttributeScheme.ObjectTypeAttributeID = [],
               ObjectPayloadAttributeScheme.ObjectAttributeValues =
                 [\<lparr>ObjectPayloadAttributeValueScheme.Value = ValueString v\<rparr>]\<rparr>"
  from payloadAttributes_Inr[OF assms(2)] have l: "list_all2 ?enc (objectResourceModel.Attributes plan) attrs"
    by simp
  from assms(3) obtain i where i: "i < length (objectResourceModel.Attributes plan)"
    "objectResourceModel.Attributes plan ! i = (name, v)" by (auto simp: in_set_conv_nth)
  from l i have len: "i < length attrs" and e: "?enc (name, v) (attrs ! i)"
    by (auto simp: list_all2_conv_all_nth)
  from e have e': "returnAttributePayloadValue name (ValueString v) (ObjectTypeScheme.Name t)
           (objectSchemaAttributes r) (configStatusType r) = Inr (Inr (attrs ! i))" by simp
  from unresolved_payload[OF e' assms(4)] have eq: "attrs ! i = ?rec" .
  from eq e' have a: "returnAttributePayloadValue name (ValueString v) (ObjectTypeScheme.Name t)
           (objectSchemaAttributes r) (configStatusType r) = Inr (Inr ?rec)" by simp
  from eq len have b: "?rec \<in> set attrs" by (auto simp: in_set_conv_nth)
  from a b Create_calls[OF assms(1,2)] show ?thesis by blast
qed

theorem Create_unresolved_name_passes_through_witness:
  "getObjectTypeByName (ValueString (objectResourceModel.Type (samplePlan [(''bogus'', StringValue ''x'')])))
     (objectSchemaTypes sampleResource) = Inr sampleHost
   \<and> (''bogus'', StringValue ''x'') \<in> set (objectResourceModel.Attributes (samplePlan [(''bogus'', StringValue ''x'')]))
   \<and> \<not> (\<exists>y. Some y \<in> set (objectSchemaAttributes sampleResource) \<and>
           attributeMatches ''bogus'' (ObjectTypeScheme.Name sampleHost) y)
   \<and> calls (Create sampleResource (samplePlan [(''bogus'', StringValue ''x'')])) =
       [CreateCall ''w1''
          (makePayload sampleHost
             [\<lparr>ObjectPayloadAttributeScheme.ObjectTypeAttributeID = [],
               ObjectPayloadAttributeScheme.ObjectAttributeValues =
                 [\<lparr>ObjectPayloadAttributeValueScheme.Value = ''x''\<rparr>]\<rparr>]
             (samplePlan [(''bogus'', StringValue ''x'')]))]"
proof -
  let ?plan = "samplePlan [(''bogus'', StringValue ''x'')]"
  let ?rec = "\<lparr>ObjectPayloadAttributeScheme.ObjectTypeAttributeID = [],
               ObjectPayloadAttributeScheme.ObjectAttributeValues =
                 [\<lparr>ObjectPayloadAttributeValueScheme.Value = ''x''\<rparr>]\<rparr>"
  have h1: "getObjectTypeByName (ValueString (objectResourceModel.Type ?plan))
              (objectSchemaTypes sampleResource) = Inr sampleHost"
    by (simp add: sample_defs)
  have h2: "payloadAttributes (objectResourceModel.Attributes ?plan) (ObjectTypeScheme.Name sampleHost)
              (objectSchemaAttributes sampleResource) (configStatusType sampleResource) []
            = Inr (Inr [?rec])"
    by (simp add: sample_defs codec_defs zero_ObjectTypeAttributeScheme_def)
  have h3: "(''bogus'', StringValue ''x'') \<in> set (objectResourceModel.Attributes ?plan)"
    by (simp add: sample_defs)
  have h4: "\<forall>y. Some y \<in> set (objectSchemaAttributes sampleResource) \<longrightarrow>
              \<not> attributeMatches ''bogus'' (ObjectTypeScheme.Name sampleHost) y"
    by (auto simp: sample_defs attributeMatches_def)
  from h4 have h5: "\<not> (\<exists>y. Some y \<in> set (objectSchemaAttributes sampleResource) \<and>
              attributeMatches ''bogus'' (ObjectTypeScheme.Name sampleHost) y)"
    by blast
  from Create_unresolved_name_passes_through[OF h1 h2 h3 h4] h1 h3 h5 show ?thesis
    by (simp add: workspaceId_sample)
qed

subsection \<open>Round trip of status names\<close>

text \<open>
  Claim C2, as stated: for a definition of type code 7 and every name of the status table,
  decoding the record produced by encoding the name gives the name back, that is
  \<open>getConfigStatusNameByID (getConfigStatusIDByName name table) table = name\<close>. It does not hold
  for a table in which two entries share an ID: with entries (1, A) and (1, B), the name B is
  encoded as 1 and 1 is decoded as A.
\<close>

theorem status_round_trip_fails_on_shared_ID:
  "getObjectAttributeByName ''Status'' ''Host'' [Some sampleStatusDef] = Inr sampleStatusDef
   \<and> ObjectTypeAttributeScheme.Type sampleStatusDef = 7
   \<and> \<lparr>StatusTypeMetadata.ID = ''1'', StatusTypeMetadata.Name = ''B''\<rparr>
       \<in> set [\<lparr>StatusTypeMetadata.ID = ''1'', StatusTypeMetadata.Name = ''A''\<rparr>,
              \<lparr>StatusTypeMetadata.ID = ''1'', StatusTypeMetadata.Name = ''B''\<rparr>]
   \<and> getConfigStatusIDByName ''B''
        (Some [\<lparr>StatusTypeMetadata.ID = ''1'', StatusTypeMetadata.Name = ''A''\<rparr>,
               \<lparr>StatusTypeMetadata.ID = ''1'', StatusTypeMetadata.Name = ''B''\<rparr>]) = Inr (Inr ''1'')
   \<and> getConfigStatusNameByID ''1''
        (Some [\<lparr>StatusTypeMetadata.ID = ''1'', StatusTypeMetadata.Name = ''A''\<rparr>,
               \<lparr>StatusTypeMetadata.ID = ''1'', StatusTypeMetadata.Name = ''B''\<rparr>]) = Inr ''A''
   \<and> returnAttributePayloadValue ''Status'' ''B'' ''Host'' [Some sampleStatusDef]
        (Some [\<lparr>StatusTypeMetadata.ID = ''1'', StatusTypeMetadata.Name = ''A''\<rparr>,
               \<lparr>StatusTypeMetadata.ID = ''1'', StatusTypeMetadata.Name = ''B''\<rparr>])
       = Inr (Inr \<lparr>ObjectPayloadAttributeScheme.ObjectTypeAttributeID = ''12'',
                   ObjectPayloadAttributeScheme.ObjectAttributeValues =
                     [\<lparr>ObjectPayloadAttributeValueScheme.Value = ''1''\<rparr>]\<rparr>)
   \<and> getAttributeValue
        (Some (storedAttribute sampleStatusDef
                 \<lparr>ObjectPayloadAttributeScheme.ObjectTypeAttributeID = ''12'',
                  ObjectPayloadAttributeScheme.ObjectAttributeValues =
                    [\<lparr>ObjectPayloadAttributeValueScheme.Value = ''1''\<rparr>]\<rparr>))
        (Some [\<lparr>StatusTypeMetadata.ID = ''1'', StatusTypeMetadata.Name = ''A''\<rparr>,
               \<lparr>StatusTypeMetadata.ID = ''1'', StatusTypeMetadata.Name = ''B''\<rparr>])
       = Inr (''A'', None)
   \<and> ''A'' \<noteq> ''B''"
  by (simp add: sample_defs codec_defs)

text \<open>
  Claim C2, amended: the round trip holds for every name of the table when entries that share
  an ID also share a name (in particular when the IDs of the table are pairwise distinct).
  Then, for a resolved definition \<open>d\<close> of type code 7, the name of an entry \<open>e\<close> is encoded as
  an ID \<open>i\<close> that the table maps back to the name, and decoding the record that carries \<open>i\<close> as
  a status ID returns the name with a nil error.
\<close>

theorem status_round_trip:
  assumes "getObjectAttributeByName name objectType defs = Inr d"
    and "ObjectTypeAttributeScheme.Type d = 7"
    and "e \<in> set table"
    and "\<forall>a\<in>set table. \<forall>b\<in>set table.
           StatusTypeMetadata.ID a = StatusTypeMetadata.ID b \<longrightarrow>
           StatusTypeMetadata.Name a = StatusTypeMetadata.Name b"
  shows "\<exists>i. getConfigStatusIDByName (StatusTypeMetadata.Name e) (Some table) = Inr (Inr i) \<and>
           getConfigStatusNameByID i (Some table) = Inr (StatusTypeMetadata.Name e) \<and>
           (\<exists>p. returnAttributePayloadValue name (StatusTypeMetadata.Name e) objectType defs (Some table)
                  = Inr (Inr p) \<and>
                ObjectPayloadAttributeScheme.ObjectAttributeValues p
                  = [\<lparr>ObjectPayloadAttributeValueScheme.Value = i\<rparr>] \<and>
                getAttributeValue (Some (storedAttribute d p)) (Some table)
                  = Inr (StatusTypeMetadata.Name e, None))"
proof -
  from status_table_round_trip[OF assms(3,4)] obtain i where
    i: "getConfigStatusIDByName_loop (StatusTypeMetadata.Name e) table [] = Inr i"
       "getConfigStatusNameByID_loop i table = StatusTypeMetadata.Name e" by blast
  have a: "getConfigStatusIDByName (StatusTypeMetadata.Name e) (Some table) = Inr (Inr i)"
    using i(1) by (simp add: getConfigStatusIDByName_def)
  have b: "getConfigStatusNameByID i (Some table) = Inr (StatusTypeMetadata.Name e)"
    using i(2) by (simp add: getConfigStatusNameByID_def)
  let ?p = "\<lparr>ObjectPayloadAttributeScheme.ObjectTypeAttributeID = ObjectTypeAttributeScheme.ID d,
             ObjectPayloadAttributeScheme.ObjectAttributeValues = [\<lparr>ObjectPayloadAttributeValueScheme.Value = i\<rparr>]\<rparr>"
  have c: "returnAttributePayloadValue name (StatusTypeMetadata.Name e) objectType defs (Some table) = Inr (Inr ?p)"
    using assms(1,2) a by (simp add: returnAttributePayloadValue_def)
  have d: "getAttributeValue (Some (storedAttribute d ?p)) (Some table) = Inr (StatusTypeMetadata.Name e, None)"
    using assms(2) b
    by (simp add: getAttributeValue_def storedAttribute_def storedValue_def firstValue_def)
  from a b c d show ?thesis by auto
qed

theorem status_round_trip_witness:
  "getObjectAttributeByName ''Status'' ''Host'' (objectSchemaAttributes sampleResource)
     = Inr sampleStatusDef
   \<and> ObjectTypeAttributeScheme.Type sampleStatusDef = 7
   \<and> \<lparr>StatusTypeMetadata.ID = ''2'', StatusTypeMetadata.Name = ''Disabled''\<rparr> \<in> set sampleStatuses
   \<and> distinct (map StatusTypeMetadata.ID sampleStatuses)
   \<and> (\<exists>i. getConfigStatusIDByName ''Disabled'' (Some sampleStatuses) = Inr (Inr i) \<and>
           getConfigStatusNameByID i (Some sampleStatuses) = Inr ''Disabled'' \<and>
           (\<exists>p. returnAttributePayloadValue ''Status'' ''Disabled'' ''Host''
                   (objectSchemaAttributes sampleResource) (Some sampleStatuses) = Inr (Inr p) \<and>
                getAttributeValue (Some (storedAttribute sampleStatusDef p)) (Some sampleStatuses)
                  = Inr (''Disabled'', None)))"
proof -
  let ?e = "\<lparr>StatusTypeMetadata.ID = ''2'', StatusTypeMetadata.Name = ''Disabled''\<rparr>"
  have h1: "getObjectAttributeByName ''Status'' ''Host'' (objectSchemaAttributes sampleResource)
     = Inr sampleStatusDef"
    by (simp add: sample_defs)
  have h2: "ObjectTypeAttributeScheme.Type sampleStatusDef = 7"
    by (simp add: sample_defs)
  have h3: "?e \<in> set sampleStatuses"
    by (simp add: sample_defs)
  have h4: "\<forall>a\<in>set sampleStatuses. \<forall>b\<in>set sampleStatuses.
           StatusTypeMetadata.ID a = StatusTypeMetadata.ID b \<longrightarrow>
           StatusTypeMetadata.Name a = StatusTypeMetadata.Name b"
    by (simp add: sample_defs)
  have h5: "distinct (map StatusTypeMetadata.ID sampleStatuses)"
    by (simp add: sample_defs)
  from status_round_trip[OF h1 h2 h3 h4] have
    "\<exists>i. getConfigStatusIDByName ''Disabled'' (Some sampleStatuses) = Inr (Inr i) \<and>
           getConfigStatusNameByID i (Some sampleStatuses) = Inr ''Disabled'' \<and>
           (\<exists>p. returnAttributePayloadValue ''Status'' ''Disabled'' ''Host''
                   (objectSchemaAttributes sampleResource) (Some sampleStatuses) = Inr (Inr p) \<and>
                getAttributeValue (Some (storedAttribute sampleStatusDef p)) (Some sampleStatuses)
                  = Inr (''Disabled'', None))"
    by auto
  with h1 h2 h3 h5 show ?thesis by blast
qed

subsection \<open>Round trip of text and reference values\<close>

text \<open>
  Claim C3: for a resolved definition \<open>d\<close> of type code 0 or 1 and every string \<open>v\<close>, encoding
  passes \<open>v\<close> through unchanged into the single value of the payload record, and decoding the
  record that carries this value returns \<open>v\<close> with a nil error, whatever the status tables.
\<close>

theorem text_and_reference_round_trip:
  assumes "getObjectAttributeByName name objectType defs = Inr d"
    and "ObjectTypeAttributeScheme.Type d = 0 \<or> ObjectTypeAttributeScheme.Type d = 1"
  shows "\<exists>p. returnAttributePayloadValue name v objectType defs statusType = Inr (Inr p) \<and>
           ObjectPayloadAttributeScheme.ObjectTypeAttributeID p = ObjectTypeAttributeScheme.ID d \<and>
           ObjectPayloadAttributeScheme.ObjectAttributeValues p
             = [\<lparr>ObjectPayloadAttributeValueScheme.Value = v\<rparr>] \<and>
           getAttributeValue (Some (storedAttribute d p)) statusType' = Inr (v, None)"
  using assms
  by (auto simp: returnAttributePayloadValue_def getAttributeValue_def storedAttribute_def
        storedValue_def firstValue_def)

theorem text_and_reference_round_trip_witness:
  "getObjectAttributeByName ''external_ips'' ''Host'' (objectSchemaAttributes sampleResource)
     = Inr sampleTextDef
   \<and> ObjectTypeAttributeScheme.Type sampleTextDef = 0
   \<and> (\<exists>p. returnAttributePayloadValue ''external_ips'' ''1.2.3.4'' ''Host''
             (objectSchemaAttributes sampleResource) (configStatusType sampleResource) = Inr (Inr p) \<and>
           getAttributeValue (Some (storedAttribute sampleTextDef p)) (configStatusType sampleResource)
             = Inr (''1.2.3.4'', None))"
proof -
  have h1: "getObjectAttributeByName ''external_ips'' ''Host'' (objectSchemaAttributes sampleResource)
     = Inr sampleTextDef"
    by (simp add: sample_defs)
  have h2: "ObjectTypeAttributeScheme.Type sampleTextDef = 0"
    by (simp add: sample_defs)
  from h2 have h3: "ObjectTypeAttributeScheme.Type sampleTextDef = 0 \<or>
      ObjectTypeAttributeScheme.Type sampleTextDef = 1" by simp
  from text_and_reference_round_trip[OF h1 h3, of "''1.2.3.4''" "configStatusType sampleResource"
      "configStatusType sampleResource"] h1 h2
  show ?thesis by blast
qed

subsection \<open>The names that Read rebuilds\<close>

text \<open>
  Claim C4: after a successful Read, the names of the rebuilt attribute map are exactly the
  names of the attributes returned by the remote API that are neither configured ignore keys
  nor one of Created, Key and Updated. Every returned entry has a name, and each name occurs
  once in the map.
\<close>

theorem Read_rebuilds_the_names_not_ignored:
  assumes "new_state (Read r state) = Some st'"
  shows "\<exists>attrs.
           Object_Attributes (client r) (workspaceId r) (ValueString (objectResourceModel.Id state))
             = Inr attrs \<and>
           None \<notin> attributeName ` set attrs \<and>
           fst ` set (objectResourceModel.Attributes st')
             = {n. Some n \<in> attributeName ` set attrs} - ignoredNames r \<and>
           distinct (map fst (objectResourceModel.Attributes st'))"
proof -
  from Read_success[OF assms] obtain attrs attributes where
    a: "Object_Attributes (client r) (workspaceId r) (ValueString (objectResourceModel.Id state)) = Inr attrs"
    and l: "Read_attributes attrs (ignoreKeys r) (configStatusType r) [] = Inr attributes"
    and s: "objectResourceModel.Attributes st' = map (\<lambda>(k, v). (k, StringValue v)) attributes"
    by blast
  have m: "map fst (objectResourceModel.Attributes st') = map fst attributes"
    unfolding s by (rule map_fst_StringValue)
  then have "set (map fst (objectResourceModel.Attributes st')) = set (map fst attributes)" by simp
  then have f: "fst ` set (objectResourceModel.Attributes st') = fst ` set attributes" by simp
  from Read_attributes_names[OF l] f m a show ?thesis
    by (auto simp: ignoredNames_def)
qed

theorem Read_rebuilds_the_names_not_ignored_witness:
  "new_state (Read sampleResource (samplePlan [])) =
     Some ((samplePlan [])
       \<lparr>objectResourceModel.Attributes := [(''Status'', StringValue ''Enabled''), (''Owner'', StringValue [])],
        objectResourceModel.WorkspaceId := StringValue ''w1'',
        objectResourceModel.GlobalId := StringValue ''w1:88'',
        objectResourceModel.Id := StringValue ''88'',
        objectResourceModel.Label := StringValue ''web01'',
        objectResourceModel.ObjectKey := StringValue ''IT-88'',
        objectResourceModel.HasAvatar := BoolValue False,
        objectResourceModel.Type := StringValue ''Host''\<rparr>)
   \<and> {n. Some n \<in> attributeName ` set sampleRemoteAttributes} - ignoredNames sampleResource
       = {''Status'', ''Owner''}"
proof -
  let ?st = "(samplePlan [])
       \<lparr>objectResourceModel.Attributes := [(''Status'', StringValue ''Enabled''), (''Owner'', StringValue [])],
        objectResourceModel.WorkspaceId := StringValue ''w1'',
        objectResourceModel.GlobalId := StringValue ''w1:88'',
        objectResourceModel.Id := StringValue ''88'',
        objectResourceModel.Label := StringValue ''web01'',
        objectResourceModel.ObjectKey := StringValue ''IT-88'',
        objectResourceModel.HasAvatar := BoolValue False,
        objectResourceModel.Type := StringValue ''Host''\<rparr>"
  have h: "new_state (Read sampleResource (samplePlan [])) = Some ?st"
    by (simp add: Read_def sample_defs codec_defs outcome_defs Let_def)
  have a: "Object_Attributes (client sampleResource) (workspaceId sampleResource)
             (ValueString (objectResourceModel.Id (samplePlan []))) = Inr sampleRemoteAttributes"
    by (simp add: sampleResource_def sampleClient_def)
  have f: "fst ` set (objectResourceModel.Attributes ?st) = {''Status'', ''Owner''}"
    by simp
  from Read_rebuilds_the_names_not_ignored[OF h] a f
  have "{n. Some n \<in> attributeName ` set sampleRemoteAttributes} - ignoredNames sampleResource
       = {''Status'', ''Owner''}" by auto
  with h show ?thesis by blast
qed

subsection \<open>The payload of Update\<close>

text \<open>
  Claim C5: Update issues either no remote call (an attribute failed to encode, or a lookup
  panicked) or exactly one update call, whose payload holds one attribute record per entry of
  the desired attribute map, each the encoding of its entry, in the order visited, and nothing
  else; it never issues a delete call.
\<close>

theorem Update_sends_the_planned_attributes_only:
  "(calls (Update r plan) = [] \<or>
    (\<exists>t payload.
       getObjectTypeByName (ValueString (objectResourceModel.Type plan)) (objectSchemaTypes r) = Inr t \<and>
       calls (Update r plan) =
         [UpdateCall (workspaceId r) (ValueString (objectResourceModel.Id plan)) payload] \<and>
       list_all2
         (\<lambda>el rec. returnAttributePayloadValue (fst el) (ValueString (snd el)) (ObjectTypeScheme.Name t)
                      (objectSchemaAttributes r) (configStatusType r) = Inr (Inr rec))
         (objectResourceModel.Attributes plan) (ObjectPayloadScheme.Attributes payload)))
   \<and> (\<forall>ws i. DeleteCall ws i \<notin> set (calls (Update r plan)))"
proof -
  from Update_calls[of r plan]
  show ?thesis
  proof
    assume "calls (Update r plan) = [] \<and> new_state (Update r plan) = None"
    then show ?thesis by simp
  next
    assume "\<exists>t attrs. getObjectTypeByName (ValueString (objectResourceModel.Type plan)) (objectSchemaTypes r) = Inr t \<and>
      payloadAttributes (objectResourceModel.Attributes plan) (ObjectTypeScheme.Name t)
         (objectSchemaAttributes r) (configStatusType r) [] = Inr (Inr attrs) \<and>
      calls (Update r plan) =
        [UpdateCall (workspaceId r) (ValueString (objectResourceModel.Id plan)) (makePayload t attrs plan)]"
    then obtain t attrs where
      t: "getObjectTypeByName (ValueString (objectResourceModel.Type plan)) (objectSchemaTypes r) = Inr t"
      and p: "payloadAttributes (objectResourceModel.Attributes plan) (ObjectTypeScheme.Name t)
         (objectSchemaAttributes r) (configStatusType r) [] = Inr (Inr attrs)"
      and c: "calls (Update r plan) =
        [UpdateCall (workspaceId r) (ValueString (objectResourceModel.Id plan)) (makePayload t attrs plan)]"
      by blast
    from payloadAttributes_Inr[OF p] have
      "list_all2
         (\<lambda>el rec. returnAttributePayloadValue (fst el) (ValueString (snd el)) (ObjectTypeScheme.Name t)
                      (objectSchemaAttributes r) (configStatusType r) = Inr (Inr rec))
         (objectResourceModel.Attributes plan) (ObjectPayloadScheme.Attributes (makePayload t attrs plan))"
      by (simp add: makePayload_def)
    with t c show ?thesis by auto
  qed
qed

theorem Update_sends_the_planned_attributes_only_witness:
  "calls (Update sampleResource
           (samplePlan [(''Status'', StringValue ''Enabled''), (''external_ips'', StringValue ''1.2.3.4'')]))
     = [UpdateCall ''w1'' ''88''
         \<lparr>ObjectPayloadScheme.ObjectTypeID = ''3'',
          ObjectPayloadScheme.Attributes =
            [\<lparr>ObjectPayloadAttributeScheme.ObjectTypeAttributeID = ''12'',
              ObjectPayloadAttributeScheme.ObjectAttributeValues =
                [\<lparr>ObjectPayloadAttributeValueScheme.Value = ''1''\<rparr>]\<rparr>,
             \<lparr>ObjectPayloadAttributeScheme.ObjectTypeAttributeID = ''13'',
              ObjectPayloadAttributeScheme.ObjectAttributeValues =
                [\<lparr>ObjectPayloadAttributeValueScheme.Value = ''1.2.3.4''\<rparr>]\<rparr>],
          ObjectPayloadScheme.HasAvatar = False, ObjectPayloadScheme.AvatarUUID = []\<rparr>]
   \<and> DeleteCall ''w1'' ''88'' \<notin> set (calls (Update sampleResource
           (samplePlan [(''Status'', StringValue ''Enabled''), (''external_ips'', StringValue ''1.2.3.4'')])))"
proof -
  let ?plan = "samplePlan [(''Status'', StringValue ''Enabled''), (''external_ips'', StringValue ''1.2.3.4'')]"
  have h: "calls (Update sampleResource ?plan)
     = [UpdateCall ''w1'' ''88''
         \<lparr>ObjectPayloadScheme.ObjectTypeID = ''3'',
          ObjectPayloadScheme.Attributes =
            [\<lparr>ObjectPayloadAttributeScheme.ObjectTypeAttributeID = ''12'',
              ObjectPayloadAttributeScheme.ObjectAttributeValues =
                [\<lparr>ObjectPayloadAttributeValueScheme.Value = ''1''\<rparr>]\<rparr>,
             \<lparr>ObjectPayloadAttributeScheme.ObjectTypeAttributeID = ''13'',
              ObjectPayloadAttributeScheme.ObjectAttributeValues =
                [\<lparr>ObjectPayloadAttributeValueScheme.Value = ''1.2.3.4''\<rparr>]\<rparr>],
          ObjectPayloadScheme.HasAvatar = False, ObjectPayloadScheme.AvatarUUID = []\<rparr>]"
    by (simp add: Update_def sample_defs codec_defs outcome_defs Let_def)
  from Update_sends_the_planned_attributes_only[of sampleResource ?plan]
  have "DeleteCall ''w1'' ''88'' \<notin> set (calls (Update sampleResource ?plan))" by blast
  with h show ?thesis by blast
qed

subsection \<open>The record produced by encoding\<close>

text \<open>
  Claim C6: a successful encoding yields one payload record, whose \<open>ObjectTypeAttributeID\<close> is
  the ID of the definition that the lookup returned and which carries one value. For object
  type Host with the attribute Status of type code 7 and the table Enabled (1), Disabled (2),
  encoding Status = Enabled yields the record with the ID of Status and the value 1, and a
  Create with that plan sends exactly this record.
\<close>

theorem encode_yields_one_record:
  "(returnAttributePayloadValue name v objectType defs statusType = Inr (Inr p) \<longrightarrow>
      (\<exists>d. getObjectAttributeByName name objectType defs = Inr d \<and>
           ObjectPayloadAttributeScheme.ObjectTypeAttributeID p = ObjectTypeAttributeScheme.ID d \<and>
           length (ObjectPayloadAttributeScheme.ObjectAttributeValues p) = 1))
   \<and> returnAttributePayloadValue ''Status'' ''Enabled'' ''Host''
        [Some \<lparr>ObjectTypeAttributeScheme.ID = sid, ObjectTypeAttributeScheme.Name = ''Status'',
               ObjectTypeAttributeScheme.Type = 7,
               ObjectTypeAttributeScheme.ObjectType =
                 Some \<lparr>ObjectTypeScheme.Id = tid, ObjectTypeScheme.Name = ''Host''\<rparr>\<rparr>]
        (Some [\<lparr>StatusTypeMetadata.ID = ''1'', StatusTypeMetadata.Name = ''Enabled''\<rparr>,
               \<lparr>StatusTypeMetadata.ID = ''2'', StatusTypeMetadata.Name = ''Disabled''\<rparr>])
      = Inr (Inr \<lparr>ObjectPayloadAttributeScheme.ObjectTypeAttributeID = sid,
                  ObjectPayloadAttributeScheme.ObjectAttributeValues =
                    [\<lparr>ObjectPayloadAttributeValueScheme.Value = ''1''\<rparr>]\<rparr>)
   \<and> (objectSchemaTypes r = [Some \<lparr>ObjectTypeScheme.Id = tid, ObjectTypeScheme.Name = ''Host''\<rparr>] \<and>
      objectSchemaAttributes r =
        [Some \<lparr>ObjectTypeAttributeScheme.ID = sid, ObjectTypeAttributeScheme.Name = ''Status'',
               ObjectTypeAttributeScheme.Type = 7,
               ObjectTypeAttributeScheme.ObjectType =
                 Some \<lparr>ObjectTypeScheme.Id = tid, ObjectTypeScheme.Name = ''Host''\<rparr>\<rparr>] \<and>
      configStatusType r =
        Some [\<lparr>StatusTypeMetadata.ID = ''1'', StatusTypeMetadata.Name = ''Enabled''\<rparr>,
              \<lparr>StatusTypeMetadata.ID = ''2'', StatusTypeMetadata.Name = ''Disabled''\<rparr>] \<and>
      objectResourceModel.Type plan = StringValue ''Host'' \<and>
      objectResourceModel.Attributes plan = [(''Status'', StringValue ''Enabled'')]
      \<longrightarrow> (\<exists>payload. calls (Create r plan) = [CreateCall (workspaceId r) payload] \<and>
             ObjectPayloadScheme.ObjectTypeID payload = tid \<and>
             ObjectPayloadScheme.Attributes payload =
               [\<lparr>ObjectPayloadAttributeScheme.ObjectTypeAttributeID = sid,
                 ObjectPayloadAttributeScheme.ObjectAttributeValues =
                   [\<lparr>ObjectPayloadAttributeValueScheme.Value = ''1''\<rparr>]\<rparr>]))"
proof -
  have a: "returnAttributePayloadValue name v objectType defs statusType = Inr (Inr p) \<longrightarrow>
      (\<exists>d. getObjectAttributeByName name objectType defs = Inr d \<and>
           ObjectPayloadAttributeScheme.ObjectTypeAttributeID p = ObjectTypeAttributeScheme.ID d \<and>
           length (ObjectPayloadAttributeScheme.ObjectAttributeValues p) = 1)"
    by (auto simp: returnAttributePayloadValue_def split: sum.splits if_splits)
  have b: "returnAttributePayloadValue ''Status'' ''Enabled'' ''Host''
        [Some \<lparr>ObjectTypeAttributeScheme.ID = sid, ObjectTypeAttributeScheme.Name = ''Status'',
               ObjectTypeAttributeScheme.Type = 7,
               ObjectTypeAttributeScheme.ObjectType =
                 Some \<lparr>ObjectTypeScheme.Id = tid, ObjectTypeScheme.Name = ''Host''\<rparr>\<rparr>]
        (Some [\<lparr>StatusTypeMetadata.ID = ''1'', StatusTypeMetadata.Name = ''Enabled''\<rparr>,
               \<lparr>StatusTypeMetadata.ID = ''2'', StatusTypeMetadata.Name = ''Disabled''\<rparr>])
      = Inr (Inr \<lparr>ObjectPayloadAttributeScheme.ObjectTypeAttributeID = sid,
                  ObjectPayloadAttributeScheme.ObjectAttributeValues =
                    [\<lparr>ObjectPayloadAttributeValueScheme.Value = ''1''\<rparr>]\<rparr>)"
    by (simp add: returnAttributePayloadValue_def getConfigStatusIDByName_def)
  have c: "objectSchemaTypes r = [Some \<lparr>ObjectTypeScheme.Id = tid, ObjectTypeScheme.Name = ''Host''\<rparr>] \<and>
      objectSchemaAttributes r =
        [Some \<lparr>ObjectTypeAttributeScheme.ID = sid, ObjectTypeAttributeScheme.Name = ''Status'',
               ObjectTypeAttributeScheme.Type = 7,
               ObjectTypeAttributeScheme.ObjectType =
                 Some \<lparr>ObjectTypeScheme.Id = tid, ObjectTypeScheme.Name = ''Host''\<rparr>\<rparr>] \<and>
      configStatusType r =
        Some [\<lparr>StatusTypeMetadata.ID = ''1'', StatusTypeMetadata.Name = ''Enabled''\<rparr>,
              \<lparr>StatusTypeMetadata.ID = ''2'', StatusTypeMetadata.Name = ''Disabled''\<rparr>] \<and>
      objectResourceModel.Type plan = StringValue ''Host'' \<and>
      objectResourceModel.Attributes plan = [(''Status'', StringValue ''Enabled'')]
      \<longrightarrow> (\<exists>payload. calls (Create r plan) = [CreateCall (workspaceId r) payload] \<and>
             ObjectPayloadScheme.ObjectTypeID payload = tid \<and>
             ObjectPayloadScheme.Attributes payload =
               [\<lparr>ObjectPayloadAttributeScheme.ObjectTypeAttributeID = sid,
                 ObjectPayloadAttributeScheme.ObjectAttributeValues =
                   [\<lparr>ObjectPayloadAttributeValueScheme.Value = ''1''\<rparr>]\<rparr>])"
  proof (intro impI, elim conjE)
    assume h: "objectSchemaTypes r = [Some \<lparr>ObjectTypeScheme.Id = tid, ObjectTypeScheme.Name = ''Host''\<rparr>]"
      "objectSchemaAttributes r =
        [Some \<lparr>ObjectTypeAttributeScheme.ID = sid, ObjectTypeAttributeScheme.Name = ''Status'',
               ObjectTypeAttributeScheme.Type = 7,
               ObjectTypeAttributeScheme.ObjectType =
                 Some \<lparr>ObjectTypeScheme.Id = tid, ObjectTypeScheme.Name = ''Host''\<rparr>\<rparr>]"
      "configStatusType r =
        Some [\<lparr>StatusTypeMetadata.ID = ''1'', StatusTypeMetadata.Name = ''Enabled''\<rparr>,
              \<lparr>StatusTypeMetadata.ID = ''2'', StatusTypeMetadata.Name = ''Disabled''\<rparr>]"
      "objectResourceModel.Type plan = StringValue ''Host''"
      "objectResourceModel.Attributes plan = [(''Status'', StringValue ''Enabled'')]"
    have t: "getObjectTypeByName (ValueString (objectResourceModel.Type plan)) (objectSchemaTypes r)
             = Inr \<lparr>ObjectTypeScheme.Id = tid, ObjectTypeScheme.Name = ''Host''\<rparr>"
      using h by simp
    have e: "payloadAttributes (objectResourceModel.Attributes plan)
               (ObjectTypeScheme.Name \<lparr>ObjectTypeScheme.Id = tid, ObjectTypeScheme.Name = ''Host''\<rparr>)
               (objectSchemaAttributes r) (configStatusType r) []
             = Inr (Inr [\<lparr>ObjectPayloadAttributeScheme.ObjectTypeAttributeID = sid,
                 ObjectPayloadAttributeScheme.ObjectAttributeValues =
                   [\<lparr>ObjectPayloadAttributeValueScheme.Value = ''1''\<rparr>]\<rparr>])"
      using h b by simp
    from Create_calls[OF t e] show "\<exists>payload. calls (Create r plan) = [CreateCall (workspaceId r) payload] \<and>
             ObjectPayloadScheme.ObjectTypeID payload = tid \<and>
             ObjectPayloadScheme.Attributes payload =
               [\<lparr>ObjectPayloadAttributeScheme.ObjectTypeAttributeID = sid,
                 ObjectPayloadAttributeScheme.ObjectAttributeValues =
                   [\<lparr>ObjectPayloadAttributeValueScheme.Value = ''1''\<rparr>]\<rparr>]"
      by (simp add: makePayload_def)
  qed
  from a b c show ?thesis by blast
qed

theorem encode_yields_one_record_witness:
  "returnAttributePayloadValue ''external_ips'' ''1.2.3.4'' ''Host''
      (objectSchemaAttributes sampleResource) (configStatusType sampleResource)
     = Inr (Inr \<lparr>ObjectPayloadAttributeScheme.ObjectTypeAttributeID = ''13'',
                 ObjectPayloadAttributeScheme.ObjectAttributeValues =
                   [\<lparr>ObjectPayloadAttributeValueScheme.Value = ''1.2.3.4''\<rparr>]\<rparr>)
   \<and> (\<exists>d. getObjectAttributeByName ''external_ips'' ''Host'' (objectSchemaAttributes sampleResource) = Inr d \<and>
           ''13'' = ObjectTypeAttributeScheme.ID d)"
proof -
  let ?p = "\<lparr>ObjectPayloadAttributeScheme.ObjectTypeAttributeID = ''13'',
                 ObjectPayloadAttributeScheme.ObjectAttributeValues =
                   [\<lparr>ObjectPayloadAttributeValueScheme.Value = ''1.2.3.4''\<rparr>]\<rparr>"
  have h: "returnAttributePayloadValue ''external_ips'' ''1.2.3.4'' ''Host''
      (objectSchemaAttributes sampleResource) (configStatusType sampleResource) = Inr (Inr ?p)"
    by (simp add: sample_defs codec_defs)
  from encode_yields_one_record[of "''external_ips''" "''1.2.3.4''" "''Host''"
      "objectSchemaAttributes sampleResource" "configStatusType sampleResource" ?p] h
  show ?thesis by simp
qed

subsection \<open>First match, zero value and panics of the lookups\<close>

text \<open>
  Claim C7, as stated: the two lookups return the first match in list order, the zero value
  when nothing matches, and never crash on any list, also when entries have a nil
  \<open>ObjectType\<close>. The last part does not hold: \<^verbatim>\<open>getObjectAttributeByName\<close> dereferences
  \<^verbatim>\<open>obj.ObjectType\<close> of an entry with the wanted name, and panics when it is nil.
\<close>

theorem getObjectAttributeByName_nil_ObjectType_panics:
  "getObjectAttributeByName ''Status'' ''Host''
     [Some \<lparr>ObjectTypeAttributeScheme.ID = ''12'', ObjectTypeAttributeScheme.Name = ''Status'',
            ObjectTypeAttributeScheme.Type = 7, ObjectTypeAttributeScheme.ObjectType = None\<rparr>]
   = Inl NilPointerDereference"
  by simp

text \<open>
  Claim C7, amended: whenever a lookup returns, it returns the first matching record in list
  order, or the zero value when no entry matches. \<^verbatim>\<open>getObjectTypeByName\<close> returns on every list
  without a nil entry, and \<^verbatim>\<open>getObjectAttributeByName\<close> on every list without a nil entry in
  which each entry with the wanted name has a non-nil \<open>ObjectType\<close>.
\<close>

theorem lookups_first_match_or_zero:
  "(getObjectTypeByName typeName types = Inr t \<longrightarrow>
      (\<exists>pre post. types = pre @ Some t # post \<and> ObjectTypeScheme.Name t = typeName \<and>
         (\<forall>y. Some y \<in> set pre \<longrightarrow> ObjectTypeScheme.Name y \<noteq> typeName))
      \<or> ((\<forall>y. Some y \<in> set types \<longrightarrow> ObjectTypeScheme.Name y \<noteq> typeName) \<and>
          t = zero_ObjectTypeScheme))
   \<and> (None \<notin> set types \<longrightarrow> (\<exists>t'. getObjectTypeByName typeName types = Inr t'))
   \<and> (getObjectAttributeByName objName objectType defs = Inr d \<longrightarrow>
      (\<exists>pre post. defs = pre @ Some d # post \<and> attributeMatches objName objectType d \<and>
         (\<forall>y. Some y \<in> set pre \<longrightarrow> \<not> attributeMatches objName objectType y))
      \<or> ((\<forall>y. Some y \<in> set defs \<longrightarrow> \<not> attributeMatches objName objectType y) \<and>
          d = zero_ObjectTypeAttributeScheme))
   \<and> (None \<notin> set defs \<and>
       (\<forall>y. Some y \<in> set defs \<and> ObjectTypeAttributeScheme.Name y = objName \<longrightarrow>
            ObjectTypeAttributeScheme.ObjectType y \<noteq> None)
      \<longrightarrow> (\<exists>d'. getObjectAttributeByName objName objectType defs = Inr d'))"
  using getObjectTypeByName_returns[of typeName types t]
    getObjectTypeByName_total[of types typeName]
    getObjectAttributeByName_returns[of objName objectType defs d]
    getObjectAttributeByName_total[of defs objName objectType]
  by blast

theorem lookups_first_match_or_zero_witness:
  "getObjectTypeByName ''Host'' (objectSchemaTypes sampleResource) = Inr sampleHost
   \<and> None \<notin> set (objectSchemaTypes sampleResource)
   \<and> getObjectAttributeByName ''external_ips'' ''Host'' (objectSchemaAttributes sampleResource)
       = Inr sampleTextDef
   \<and> None \<notin> set (objectSchemaAttributes sampleResource)
   \<and> ((\<exists>pre post. objectSchemaAttributes sampleResource = pre @ Some sampleTextDef # post \<and>
          attributeMatches ''external_ips'' ''Host'' sampleTextDef \<and>
          (\<forall>y. Some y \<in> set pre \<longrightarrow> \<not> attributeMatches ''external_ips'' ''Host'' y))
       \<or> ((\<forall>y. Some y \<in> set (objectSchemaAttributes sampleResource) \<longrightarrow>
              \<not> attributeMatches ''external_ips'' ''Host'' y) \<and>
           sampleTextDef = zero_ObjectTypeAttributeScheme))
   \<and> (\<exists>t'. getObjectTypeByName ''Host'' (objectSchemaTypes sampleResource) = Inr t')"
proof -
  have h1: "getObjectTypeByName ''Host'' (objectSchemaTypes sampleResource) = Inr sampleHost"
    by (simp add: sample_defs)
  have h2: "None \<notin> set (objectSchemaTypes sampleResource)"
    by (simp add: sample_defs)
  have h3: "getObjectAttributeByName ''external_ips'' ''Host'' (objectSchemaAttributes sampleResource)
              = Inr sampleTextDef"
    by (simp add: sample_defs)
  have h4: "None \<notin> set (objectSchemaAttributes sampleResource)"
    by (simp add: sample_defs)
  from lookups_first_match_or_zero[of "''Host''" "objectSchemaTypes sampleResource" sampleHost
      "''external_ips''" "''Host''" "objectSchemaAttributes sampleResource" sampleTextDef]
    h1 h2 h3 h4
  show ?thesis by blast
qed

subsection \<open>Decode errors during Read\<close>

text \<open>
  Claim C8, as stated: a remote attribute whose decoding returns an error is skipped by Read,
  so that its name is absent from the rebuilt map, and the error is logged. It does not hold:
  the attribute Owner of the sample has the unsupported type code 2, and Read stores its name
  with the empty string and writes no log entry.
\<close>

theorem Read_keeps_the_name_of_an_undecodable_attribute:
  "Object_Attributes (client sampleResource) ''w1'' ''88''
     = Inr [Some sampleStatusAttribute, Some sampleUserAttribute, Some sampleKeyAttribute]
   \<and> attributeName (Some sampleUserAttribute) = Some ''Owner''
   \<and> getAttributeValue (Some sampleUserAttribute) (configStatusType sampleResource)
       = Inr ([], Some (UnsupportedAttributeType 2))
   \<and> map_option objectResourceModel.Attributes (new_state (Read sampleResource (samplePlan [])))
       = Some [(''Status'', StringValue ''Enabled''), (''Owner'', StringValue [])]
   \<and> logs (Read sampleResource (samplePlan [])) = []"
  by (simp add: Read_def sample_defs codec_defs outcome_defs Let_def attributeName_def)

text \<open>
  Claim C8, amended: in a successful Read, a remote attribute that is not ignored and whose
  decoding returns an error is not skipped: its name is in the rebuilt map, with the empty
  string as its value when no later attribute has the same name. The error is dropped, neither
  logged nor surfaced as a diagnostic, and Read goes on with the remaining attributes, whose
  names that are not ignored are in the map as well.
\<close>

theorem Read_stores_the_empty_string_on_a_decode_error:
  assumes "new_state (Read r state) = Some st'"
    and "Object_Attributes (client r) (workspaceId r) (ValueString (objectResourceModel.Id state))
           = Inr (pre @ Some a # post)"
    and "ObjectAttributeScheme.ObjectTypeAttribute a = Some d"
    and "ObjectTypeAttributeScheme.Name d \<notin> ignoredNames r"
    and "getAttributeValue (Some a) (configStatusType r) = Inr (v, Some e)"
  shows "ObjectTypeAttributeScheme.Name d \<in> fst ` set (objectResourceModel.Attributes st')
    \<and> (Some (ObjectTypeAttributeScheme.Name d) \<notin> attributeName ` set post \<longrightarrow>
         map_of (objectResourceModel.Attributes st') (ObjectTypeAttributeScheme.Name d)
           = Some (StringValue []))
    \<and> {n. Some n \<in> attributeName ` set (pre @ post)} - ignoredNames r
         \<subseteq> fst ` set (objectResourceModel.Attributes st')
    \<and> logs (Read r state) = [] \<and> diagnostics (Read r state) = [] \<and> panicked (Read r state) = None"
proof -
  let ?n = "ObjectTypeAttributeScheme.Name d"
  from Read_success[OF assms(1)] assms(2) obtain attributes where
    l: "Read_attributes (pre @ Some a # post) (ignoreKeys r) (configStatusType r) [] = Inr attributes"
    and s: "objectResourceModel.Attributes st' = map (\<lambda>(k, v). (k, StringValue v)) attributes"
    and q: "logs (Read r state) = []" "diagnostics (Read r state) = []" "panicked (Read r state) = None"
    by auto
  have "map fst (objectResourceModel.Attributes st') = map fst attributes"
    unfolding s by (rule map_fst_StringValue)
  then have "set (map fst (objectResourceModel.Attributes st')) = set (map fst attributes)" by simp
  then have f: "fst ` set (objectResourceModel.Attributes st') = fst ` set attributes" by simp
  have an: "attributeName (Some a) = Some ?n" using assms(3) by (simp add: attributeName_def)
  from Read_attributes_names[OF l] f
  have names: "fst ` set (objectResourceModel.Attributes st')
      = {n. Some n \<in> attributeName ` set (pre @ Some a # post)} - ignoredNames r"
    by (auto simp: ignoredNames_def)
  from names an assms(4) have c1: "?n \<in> fst ` set (objectResourceModel.Attributes st')"
    by auto
  from names have c3: "{n. Some n \<in> attributeName ` set (pre @ post)} - ignoredNames r
         \<subseteq> fst ` set (objectResourceModel.Attributes st')" by auto
  have c2: "Some ?n \<notin> attributeName ` set post \<longrightarrow>
         map_of (objectResourceModel.Attributes st') ?n = Some (StringValue [])"
  proof
    assume last: "Some ?n \<notin> attributeName ` set post"
    from assms(4) have ni: "?n \<notin> set (ignoreKeys r) \<union> {''Created'', ''Key'', ''Updated''}"
      by (simp add: ignoredNames_def)
    from Read_attributes_last[OF l assms(3) ni last] assms(5)
    have "map_of attributes ?n = Some v" by auto
    moreover from getAttributeValue_error[OF assms(5)] have "v = []" by simp
    ultimately show "map_of (objectResourceModel.Attributes st') ?n = Some (StringValue [])"
      using s by (simp add: map_of_map)
  qed
  from c1 c2 c3 q show ?thesis by blast
qed

theorem Read_stores_the_empty_string_on_a_decode_error_witness:
  "new_state (Read sampleResource (samplePlan [])) =
     Some ((samplePlan [])
       \<lparr>objectResourceModel.Attributes := [(''Status'', StringValue ''Enabled''), (''Owner'', StringValue [])],
        objectResourceModel.WorkspaceId := StringValue ''w1'',
        objectResourceModel.GlobalId := StringValue ''w1:88'',
        objectResourceModel.Id := StringValue ''88'',
        objectResourceModel.Label := StringValue ''web01'',
        objectResourceModel.ObjectKey := StringValue ''IT-88'',
        objectResourceModel.HasAvatar := BoolValue False,
        objectResourceModel.Type := StringValue ''Host''\<rparr>)
   \<and> Object_Attributes (client sampleResource) (workspaceId sampleResource)
        (ValueString (objectResourceModel.Id (samplePlan [])))
       = Inr ([Some sampleStatusAttribute] @ Some sampleUserAttribute # [Some sampleKeyAttribute])
   \<and> ObjectAttributeScheme.ObjectTypeAttribute sampleUserAttribute = Some sampleUserDef
   \<and> ObjectTypeAttributeScheme.Name sampleUserDef \<notin> ignoredNames sampleResource
   \<and> getAttributeValue (Some sampleUserAttribute) (configStatusType sampleResource)
       = Inr ([], Some (UnsupportedAttributeType 2))
   \<and> Some (ObjectTypeAttributeScheme.Name sampleUserDef) \<notin> attributeName ` set [Some sampleKeyAttribute]
   \<and> logs (Read sampleResource (samplePlan [])) = []"
proof -
  let ?st = "(samplePlan [])
       \<lparr>objectResourceModel.Attributes := [(''Status'', StringValue ''Enabled''), (''Owner'', StringValue [])],
        objectResourceModel.WorkspaceId := StringValue ''w1'',
        objectResourceModel.GlobalId := StringValue ''w1:88'',
        objectResourceModel.Id := StringValue ''88'',
        objectResourceModel.Label := StringValue ''web01'',
        objectResourceModel.ObjectKey := StringValue ''IT-88'',
        objectResourceModel.HasAvatar := BoolValue False,
        objectResourceModel.Type := StringValue ''Host''\<rparr>"
  have h1: "new_state (Read sampleResource (samplePlan [])) = Some ?st"
    by (simp add: Read_def sample_defs codec_defs outcome_defs Let_def)
  have h2: "Object_Attributes (client sampleResource) (workspaceId sampleResource)
        (ValueString (objectResourceModel.Id (samplePlan [])))
       = Inr ([Some sampleStatusAttribute] @ Some sampleUserAttribute # [Some sampleKeyAttribute])"
    by (simp add: sampleResource_def sampleClient_def sampleRemoteAttributes_def)
  have h3: "ObjectAttributeScheme.ObjectTypeAttribute sampleUserAttribute = Some sampleUserDef"
    by (simp add: sample_defs)
  have h4: "ObjectTypeAttributeScheme.Name sampleUserDef \<notin> ignoredNames sampleResource"
    by (simp add: sample_defs ignoredNames_def)
  have h5: "getAttributeValue (Some sampleUserAttribute) (configStatusType sampleResource)
       = Inr ([], Some (UnsupportedAttributeType 2))"
    by (simp add: sample_defs codec_defs)
  have h6: "Some (ObjectTypeAttributeScheme.Name sampleUserDef) \<notin> attributeName ` set [Some sampleKeyAttribute]"
    by (simp add: sample_defs attributeName_def)
  from Read_stores_the_empty_string_on_a_decode_error[OF h1 h2 h3 h4 h5]
  have "logs (Read sampleResource (samplePlan [])) = []" by blast
  with h1 h2 h3 h4 h5 h6 show ?thesis by blast
qed

subsection \<open>The fields that Read refreshes\<close>

text \<open>
  Claim C9 says that after a successful Read every stored field, the computed fields Created
  and Updated included, equals the value returned by the remote call. Read assigns neither of
  the two: on the sample, the remote object has Created 2024-01-01 and Updated 2024-06-30, and
  the state read back keeps the prior 2023-12-31 in both fields, whereas Create and Update
  copy them from the object they get back.
\<close>

theorem Read_leaves_Created_and_Updated_stale:
  "Object_Get (client sampleResource) (workspaceId sampleResource)
      (ValueString (objectResourceModel.Id (samplePlan []))) = Inr sampleObject
   \<and> ObjectScheme.Created sampleObject = ''2024-01-01''
   \<and> ObjectScheme.Updated sampleObject = ''2024-06-30''
   \<and> map_option objectResourceModel.Created (new_state (Read sampleResource (samplePlan [])))
       = Some (StringValue ''2023-12-31'')
   \<and> map_option objectResourceModel.Updated (new_state (Read sampleResource (samplePlan [])))
       = Some (StringValue ''2023-12-31'')
   \<and> map_option objectResourceModel.Created (new_state (Create sampleResource (samplePlan [])))
       = Some (StringValue ''2024-01-01'')
   \<and> map_option objectResourceModel.Updated (new_state (Update sampleResource (samplePlan [])))
       = Some (StringValue ''2024-06-30'')"
  by (simp add: Read_def Create_def Update_def sample_defs codec_defs outcome_defs Let_def)

subsection \<open>The first value read by the decoder\<close>

text \<open>
  Claim C10: for a record with a definition of type code 0, 1 or 7, \<^verbatim>\<open>getAttributeValue\<close>
  reads the first element of the value list: on an empty list it panics with an index out of
  range, and whenever it returns the list is non-empty and the error is nil. On a non-empty
  list it returns an error exactly when the type code is none of 0, 1 and 7, and then the
  error names the type code and the string is empty. With a non-nil first element (and, for
  code 7, a non-nil status and status table) it returns.
\<close>

theorem getAttributeValue_reads_first_value:
  assumes "ObjectAttributeScheme.ObjectTypeAttribute a = Some d"
  shows "(ObjectTypeAttributeScheme.Type d \<in> {0, 1, 7} \<and> ObjectAttributeScheme.ObjectAttributeValues a = []
            \<longrightarrow> getAttributeValue (Some a) st = Inl IndexOutOfRange)
    \<and> (ObjectTypeAttributeScheme.Type d \<in> {0, 1, 7} \<and> getAttributeValue (Some a) st = Inr (v, e)
            \<longrightarrow> ObjectAttributeScheme.ObjectAttributeValues a \<noteq> [] \<and> e = None)
    \<and> (ObjectAttributeScheme.ObjectAttributeValues a \<noteq> [] \<longrightarrow>
           ((\<exists>v' e'. getAttributeValue (Some a) st = Inr (v', Some e'))
             \<longleftrightarrow> ObjectTypeAttributeScheme.Type d \<notin> {0, 1, 7}))
    \<and> (ObjectTypeAttributeScheme.Type d \<notin> {0, 1, 7} \<longrightarrow>
           getAttributeValue (Some a) st
             = Inr ([], Some (UnsupportedAttributeType (ObjectTypeAttributeScheme.Type d))))
    \<and> (ObjectTypeAttributeScheme.Type d \<in> {0, 1} \<and>
          ObjectAttributeScheme.ObjectAttributeValues a = Some x # rest
            \<longrightarrow> (\<exists>v'. getAttributeValue (Some a) st = Inr (v', None)))
    \<and> (ObjectTypeAttributeScheme.Type d = 7 \<and>
          ObjectAttributeScheme.ObjectAttributeValues a = Some x # rest \<and>
          ObjectTypeAssetAttributeValueScheme.Status x = Some s \<and> st = Some table
            \<longrightarrow> (\<exists>v'. getAttributeValue (Some a) st = Inr (v', None)))"
  using assms
  by (auto simp: getAttributeValue_def firstValue_def getConfigStatusNameByID_def
           split: list.splits option.splits sum.splits)

theorem getAttributeValue_reads_first_value_witness:
  "ObjectAttributeScheme.ObjectTypeAttribute sampleStatusAttribute = Some sampleStatusDef
   \<and> ObjectTypeAttributeScheme.Type sampleStatusDef \<in> {0, 1, 7}
   \<and> getAttributeValue (Some sampleStatusAttribute) (Some sampleStatuses) = Inr (''Enabled'', None)
   \<and> ObjectAttributeScheme.ObjectAttributeValues sampleStatusAttribute \<noteq> []
   \<and> getAttributeValue
        (Some (sampleStatusAttribute\<lparr>ObjectAttributeScheme.ObjectAttributeValues := []\<rparr>))
        (Some sampleStatuses) = Inl IndexOutOfRange
   \<and> ObjectAttributeScheme.ObjectTypeAttribute sampleUserAttribute = Some sampleUserDef
   \<and> ObjectTypeAttributeScheme.Type sampleUserDef \<notin> {0, 1, 7}
   \<and> getAttributeValue (Some sampleUserAttribute) (Some sampleStatuses)
        = Inr ([], Some (UnsupportedAttributeType 2))"
proof -
  let ?e = "sampleStatusAttribute\<lparr>ObjectAttributeScheme.ObjectAttributeValues := []\<rparr>"
  have h1: "ObjectAttributeScheme.ObjectTypeAttribute sampleStatusAttribute = Some sampleStatusDef"
    by (simp add: sample_defs)
  have h2: "ObjectTypeAttributeScheme.Type sampleStatusDef \<in> {0, 1, 7}"
    by (simp add: sample_defs)
  have h3: "getAttributeValue (Some sampleStatusAttribute) (Some sampleStatuses) = Inr (''Enabled'', None)"
    by (simp add: sample_defs codec_defs)
  have h4: "ObjectAttributeScheme.ObjectTypeAttribute ?e = Some sampleStatusDef"
    by (simp add: sample_defs)
  have h5: "ObjectAttributeScheme.ObjectAttributeValues ?e = []"
    by simp
  have h6: "ObjectAttributeScheme.ObjectTypeAttribute sampleUserAttribute = Some sampleUserDef"
    by (simp add: sample_defs)
  have h7: "ObjectTypeAttributeScheme.Type sampleUserDef \<notin> {0, 1, 7}"
    by (simp add: sample_defs)
  have h8: "ObjectTypeAttributeScheme.Type sampleUserDef = 2"
    by (simp add: sample_defs)
  from getAttributeValue_reads_first_value[OF h1, of "Some sampleStatuses" "''Enabled''" None] h2 h3
  have c1: "ObjectAttributeScheme.ObjectAttributeValues sampleStatusAttribute \<noteq> []" by blast
  from getAttributeValue_reads_first_value[OF h4, of "Some sampleStatuses"] h2 h5
  have c2: "getAttributeValue (Some ?e) (Some sampleStatuses) = Inl IndexOutOfRange" by blast
  from getAttributeValue_reads_first_value[OF h6, of "Some sampleStatuses"] h7 h8
  have c3: "getAttributeValue (Some sampleUserAttribute) (Some sampleStatuses)
        = Inr ([], Some (UnsupportedAttributeType 2))" by simp
  from h1 h2 h3 c1 c2 h6 h7 c3 show ?thesis by blast
qed

end
